theory Spec2Isabelle
  imports Complex_Main
begin

section \<open>The variational core of \<open>cdr/cdrnnbayes.py\<close>\<close>

text \<open>
  The class \<open>CDRNNBayes\<close> builds a TensorFlow graph of posterior/prior pairs and an
  objective over them. The embedding below follows the Python method by method.

  \<^item> Floating-point numbers are modelled by \<^typ>\<open>real\<close>; Python 3 division is assumed.
  \<^item> A tensor is its shape together with its entries in row-major order.
  \<^item> A graph node is a function of the environment a \<open>sess.run\<close> call evaluates it in: the
    fed placeholders and the running statistics held in non-trainable variables.
  \<^item> A trainable \<open>tf.Variable\<close> denotes its initializer: the graph is studied as constructed.
  \<^item> Exceptions are values of the type \<open>error\<close>; a method that may raise returns
    \<open>error + result\<close>.
  \<^item> Attributes of \<open>self\<close> are fields of the record \<open>model\<close>; a method that appends to
    \<open>self.kl_penalties\<close> returns the updated record.
\<close>

subsection \<open>Errors\<close>

datatype error =
    ValueError
  | IndexError
  | TypeError
  | ZeroDivisionError
  | InvalidShape
  | AssertionError string
  | AttributeError string

subsection \<open>Tensors\<close>

record tensor =
  dims :: "nat list"
  vals :: "real list"

definition scalar :: "real \<Rightarrow> tensor" where
  "scalar c = \<lparr>dims = [], vals = [c]\<rparr>"

definition tf_zeros :: "nat list \<Rightarrow> tensor" where
  "tf_zeros sh = \<lparr>dims = sh, vals = replicate (prod_list sh) 0\<rparr>"

definition tf_ones :: "nat list \<Rightarrow> tensor" where
  "tf_ones sh = \<lparr>dims = sh, vals = replicate (prod_list sh) 1\<rparr>"

definition t_map :: "(real \<Rightarrow> real) \<Rightarrow> tensor \<Rightarrow> tensor" where
  "t_map f t = \<lparr>dims = dims t, vals = map f (vals t)\<rparr>"

text \<open>Elementwise binary operations broadcast a scalar against a tensor of any shape.\<close>

definition bcast2 :: "(real \<Rightarrow> real \<Rightarrow> real) \<Rightarrow> tensor \<Rightarrow> tensor \<Rightarrow> tensor" where
  "bcast2 f a b =
     (if dims a = [] then \<lparr>dims = dims b, vals = map (\<lambda>x. f (hd (vals a)) x) (vals b)\<rparr>
      else if dims b = [] then \<lparr>dims = dims a, vals = map (\<lambda>x. f x (hd (vals b))) (vals a)\<rparr>
      else \<lparr>dims = dims a, vals = map2 f (vals a) (vals b)\<rparr>)"

definition reduce_sum :: "tensor \<Rightarrow> real" where
  "reduce_sum t = sum_list (vals t)"

subsection \<open>The session environment and graph nodes\<close>

text \<open>
  \<open>use_MAP_mode\<close> is the shared placeholder of \<open>_initialize_inputs\<close>; \<open>noise\<close> supplies the
  standard normal draws of the sampling operations; \<open>feed_y\<close> is the placeholder \<open>self.y\<close>;
  the other fields are the current values of the non-trainable variables of those names.
  The three \<open>_delta_ema\<close> variables are created by the base class; \<open>run_train_step\<close> runs
  the operations that assign them.
\<close>

record env =
  use_MAP_mode :: bool
  noise :: "nat \<Rightarrow> real"
  feed_y :: "real list"
  loss_ema :: real
  loss_sd_ema :: real
  global_batch_step :: int
  y_sd_delta_ema :: tensor
  y_skewness_delta_ema :: tensor
  y_tailweight_delta_ema :: tensor

type_synonym 'a node = "env \<Rightarrow> 'a"

definition tf_constant :: "'a \<Rightarrow> 'a node" where
  "tf_constant c = (\<lambda>e. c)"

definition tf_Variable :: "tensor \<Rightarrow> tensor node" where
  "tf_Variable init = (\<lambda>e. init)"

definition tf_cond :: "bool node \<Rightarrow> 'a node \<Rightarrow> 'a node \<Rightarrow> 'a node" where
  "tf_cond p a b = (\<lambda>e. if p e then a e else b e)"

definition n_map :: "(real \<Rightarrow> real) \<Rightarrow> tensor node \<Rightarrow> tensor node" where
  "n_map f a = (\<lambda>e. t_map f (a e))"

definition n_bcast2 :: "(real \<Rightarrow> real \<Rightarrow> real) \<Rightarrow> tensor node \<Rightarrow> tensor node \<Rightarrow> tensor node" where
  "n_bcast2 f a b = (\<lambda>e. bcast2 f (a e) (b e))"

subsection \<open>Distributions\<close>

text \<open>
  \<open>Normal(loc, scale)\<close> of \<open>tensorflow.contrib.distributions\<close>: the mean is the location,
  a sample is \<open>loc + scale * z\<close> for standard normal draws \<open>z\<close>, and the KL divergence
  between two normals is the closed form the library registers for the pair.
\<close>

record normal =
  loc :: "tensor node"
  scale :: "tensor node"

definition Normal :: "tensor node \<Rightarrow> tensor node \<Rightarrow> normal" where
  "Normal l s = \<lparr>loc = l, scale = s\<rparr>"

definition mean :: "normal \<Rightarrow> tensor node" where
  "mean d = loc d"

definition sample :: "normal \<Rightarrow> tensor node" where
  "sample d = (\<lambda>e.
     (let l = bcast2 (\<lambda>a b. a) (loc d e) (scale d e);
          s = bcast2 (\<lambda>a b. b) (loc d e) (scale d e)
      in \<lparr>dims = dims l,
          vals = map (\<lambda>i. vals l ! i + vals s ! i * noise e i) [0..<length (vals l)]\<rparr>))"

definition kl_normal_normal :: "real \<Rightarrow> real \<Rightarrow> real \<Rightarrow> real \<Rightarrow> real" where
  "kl_normal_normal la sa lb sb =
     (la - lb)\<^sup>2 / (2 * sb\<^sup>2) + (1/2) * (sa\<^sup>2 / sb\<^sup>2 - 1 - ln (sa\<^sup>2 / sb\<^sup>2))"

definition kl_divergence :: "normal \<Rightarrow> normal \<Rightarrow> tensor node" where
  "kl_divergence q p = (\<lambda>e.
     (let lq = bcast2 (\<lambda>a b. a) (loc q e) (scale q e);
          sq = bcast2 (\<lambda>a b. b) (loc q e) (scale q e);
          lp = bcast2 (\<lambda>a b. b) sq (loc p e);
          sp = bcast2 (\<lambda>a b. b) sq (scale p e)
      in \<lparr>dims = dims lq,
          vals = map (\<lambda>i. kl_normal_normal (vals lq ! i) (vals sq ! i) (vals lp ! i) (vals sp ! i))
                     [0..<length (vals lq)]\<rparr>))"

text \<open>
  \<open>SinhArcsinh(loc, scale, skewness, tailweight)\<close> is used for the asymmetric output
  distribution only. Its mean, sampler and log-density are library code; they are taken
  as parameters (\<open>sas_lib\<close>) wherever the output model needs them.
\<close>

record sinh_arcsinh =
  sas_loc :: "tensor node"
  sas_scale :: "tensor node"
  sas_skewness :: "tensor node"
  sas_tailweight :: "tensor node"

record sas_lib =
  sas_mean :: "sinh_arcsinh \<Rightarrow> tensor node"
  sas_sample :: "sinh_arcsinh \<Rightarrow> tensor node"
  sas_log_prob :: "sinh_arcsinh \<Rightarrow> real list \<Rightarrow> real list node"

datatype dist = DNormal normal | DSinhArcsinh sinh_arcsinh

fun dist_mean :: "sas_lib \<Rightarrow> dist \<Rightarrow> tensor node" where
  "dist_mean lib (DNormal d) = mean d"
| "dist_mean lib (DSinhArcsinh d) = sas_mean lib d"

fun dist_sample :: "sas_lib \<Rightarrow> dist \<Rightarrow> tensor node" where
  "dist_sample lib (DNormal d) = sample d"
| "dist_sample lib (DSinhArcsinh d) = sas_sample lib d"

definition normal_log_prob :: "normal \<Rightarrow> real list \<Rightarrow> real list node" where
  "normal_log_prob d ys = (\<lambda>e.
     (let yt = \<lparr>dims = [length ys], vals = ys\<rparr>;
          l = bcast2 (\<lambda>a b. b) yt (loc d e);
          s = bcast2 (\<lambda>a b. b) yt (scale d e)
      in map (\<lambda>i. - ((ys ! i - vals l ! i)\<^sup>2) / (2 * (vals s ! i)\<^sup>2)
                    - ln (vals s ! i) - (1/2) * ln (2 * pi))
             [0..<length ys]))"

fun log_prob :: "sas_lib \<Rightarrow> dist \<Rightarrow> real list \<Rightarrow> real list node" where
  "log_prob lib (DNormal d) ys = normal_log_prob d ys"
| "log_prob lib (DSinhArcsinh d) ys = sas_log_prob lib d ys"

subsection \<open>The model object\<close>

text \<open>
  A prior scale is configured as a number or as the name of an initialization heuristic.
\<close>

datatype sd_spec = SdNum real | SdStr string

text \<open>
  A regularizable layer either has a list of weights or is a bare variable
  (\<open>hasattr(l, 'weights')\<close>).
\<close>

record tf_var =
  var_name :: string
  var_value :: "tensor node"

datatype layer = Layer "tf_var list" | BareVar tf_var

text \<open>
  The attributes of \<open>self\<close> that the methods below read or write. The first group are the
  initialization keyword arguments. The second group is set by the base class \<open>CDRNN\<close>,
  whose source is not part of this development: its values are arbitrary here. The
  third group is written by \<open>_initialize_metadata\<close>. The field \<open>net_out\<close> is \<open>self.out\<close> as
  the base network leaves it, before \<open>_initialize_output_model\<close> rebinds the attribute.

  Modelled from the spec: \<open>nn_regularizer\<close> and \<open>reg_name\<close> stand for the base method
  \<open>_regularize(v, type='nn', var_name=reg_name(v.name))\<close>, which is missing: when a
  regularizer is configured it appends the L-p penalty of the weight to
  \<open>regularizer_losses\<close> and the variable's name to \<open>regularizer_losses_varnames\<close>.
\<close>

record model =
  standardize_response :: bool
  intercept_init :: "real option"
  intercept_prior_sd :: "real option"
  y_sd_prior_sd :: "real option"
  prior_sd_scaling_coefficient :: real
  y_sd_prior_sd_scaling_coefficient :: real
  posterior_to_prior_sd_ratio :: real
  ranef_to_fixef_prior_sd_ratio :: real
  y_skewness_prior_sd :: real
  y_tailweight_prior_sd :: real
  y_tailweight_prior_loc :: real
  weight_prior_sd :: sd_spec
  bias_prior_sd :: sd_spec
  declare_priors_fixef :: bool
  declare_priors_ranef :: bool
  asymmetric_error :: bool
  y_sd_trainable :: bool
  loss_filter_n_sds :: "real option"
  ema_decay :: "real option"
  scale_loss_with_data :: bool
  optim_name :: "string option"
  n_units_rnn :: "nat list"
  n_units_hidden_state :: nat
  n_units_t_delta_embedding :: nat
  n_layers_rnn :: nat

  y_train_mean :: real
  y_train_sd :: real
  constraint_fn :: "real \<Rightarrow> real"
  constraint_fn_inv :: "real \<Rightarrow> real"
  epsilon :: real
  rangf :: "string list"
  rangf_n_levels :: "int list"
  impulse_names :: "string list"
  intercept_init_tf :: real
  y_sd_init_unconstrained :: real
  y_sd_init_tf :: real
  net_out :: "tensor node"
  y_sd_delta :: "tensor node"
  y_skewness_delta :: "tensor node"
  y_tailweight_delta :: "tensor node"
  minibatch_scale :: "real node"
  regularizable_layers :: "layer list"
  regularizer_losses :: "real node list"
  regularizer_losses_varnames :: "string list"
  nn_regularizer :: "(tensor node \<Rightarrow> real node) option"
  reg_name :: "string \<Rightarrow> string"

  kl_penalties :: "tensor node list"
  intercept_prior_sd_tf :: real
  intercept_posterior_sd_init :: real
  intercept_ranef_prior_sd_tf :: real
  intercept_ranef_posterior_sd_init :: real
  y_sd_prior_sd_tf :: real
  y_sd_posterior_sd_init :: real
  y_skewness_prior_sd_tf :: real
  y_skewness_posterior_sd_init :: real
  y_tailweight_prior_loc_tf :: real
  y_tailweight_posterior_loc_init :: real
  y_tailweight_prior_sd_tf :: real
  y_tailweight_posterior_sd_init :: real

subsection \<open>\<open>_initialize_metadata\<close>\<close>

definition initialize_metadata :: "model \<Rightarrow> model" where
  "initialize_metadata self =
     (let intercept_init' =
            (case intercept_init self of
               None \<Rightarrow> (if standardize_response self then 0 else y_train_mean self)
             | Some v \<Rightarrow> v);
          intercept_prior_sd' =
            (case intercept_prior_sd self of
               None \<Rightarrow> (if standardize_response self then prior_sd_scaling_coefficient self
                         else y_train_sd self * prior_sd_scaling_coefficient self)
             | Some v \<Rightarrow> v);
          y_sd_prior_sd' =
            (case y_sd_prior_sd self of
               None \<Rightarrow> (if standardize_response self then y_sd_prior_sd_scaling_coefficient self
                         else y_train_sd self * y_sd_prior_sd_scaling_coefficient self)
             | Some v \<Rightarrow> v);
          intercept_prior_sd_tf' = intercept_prior_sd';
          intercept_posterior_sd_init' = intercept_prior_sd_tf' * posterior_to_prior_sd_ratio self;
          y_sd_prior_sd_tf' = y_sd_prior_sd';
          y_skewness_prior_sd_tf' = y_skewness_prior_sd self;
          y_tailweight_prior_sd_tf' = y_tailweight_prior_sd self
      in self\<lparr>
           intercept_init := Some intercept_init',
           intercept_prior_sd := Some intercept_prior_sd',
           y_sd_prior_sd := Some y_sd_prior_sd',
           kl_penalties := [],
           intercept_prior_sd_tf := intercept_prior_sd_tf',
           intercept_posterior_sd_init := intercept_posterior_sd_init',
           intercept_ranef_prior_sd_tf := intercept_prior_sd_tf' * ranef_to_fixef_prior_sd_ratio self,
           intercept_ranef_posterior_sd_init :=
             intercept_posterior_sd_init' * ranef_to_fixef_prior_sd_ratio self,
           y_sd_prior_sd_tf := y_sd_prior_sd_tf',
           y_sd_posterior_sd_init := y_sd_prior_sd_tf' * posterior_to_prior_sd_ratio self,
           y_skewness_prior_sd_tf := y_skewness_prior_sd_tf',
           y_skewness_posterior_sd_init := y_skewness_prior_sd_tf' * posterior_to_prior_sd_ratio self,
           y_tailweight_prior_loc_tf := 1,
           y_tailweight_posterior_loc_init := 1,
           y_tailweight_prior_sd_tf := y_tailweight_prior_sd_tf',
           y_tailweight_posterior_sd_init :=
             y_tailweight_prior_sd_tf' * posterior_to_prior_sd_ratio self\<rparr>)"

subsection \<open>Pieces shared by the parameter builders\<close>

text \<open>\<open>str.lower()\<close> on ASCII strings.\<close>

definition lower_char :: "char \<Rightarrow> char" where
  "lower_char c =
     (let n = (of_char c :: nat) in if 65 \<le> n \<and> n \<le> 90 then char_of (n + 32) else c)"

definition lower :: "string \<Rightarrow> string" where
  "lower s = map lower_char s"

text \<open>
  Every builder resolves its prior scale by the same block:
  \<^verbatim>\<open>
  if isinstance(sd_prior, str):
      if sd_prior.lower() in ['xavier', 'glorot']:
          sd_prior = math.sqrt(2 / (units + 1))
      elif sd_prior.lower() == 'he':
          sd_prior = math.sqrt(2 / units)
  sd_posterior = sd_prior * self.posterior_to_prior_sd_ratio
  \<close>
  A string that names no heuristic is left as it is, and the product with the float ratio
  on the next line raises \<open>TypeError\<close>; \<open>'he'\<close> with no units divides by zero.
\<close>

definition resolve_sd_prior :: "sd_spec \<Rightarrow> nat \<Rightarrow> error + real" where
  "resolve_sd_prior sd_prior units =
     (case sd_prior of
        SdStr s \<Rightarrow>
          (if lower s \<in> set [''xavier'', ''glorot''] then Inr (sqrt (2 / (real units + 1)))
           else if lower s = ''he'' then
             (if units = 0 then Inl ZeroDivisionError else Inr (sqrt (2 / real units)))
           else Inl TypeError)
      | SdNum v \<Rightarrow> Inr v)"

text \<open>\<open>list.index(x)\<close>: the first position of \<open>x\<close>, or \<open>ValueError\<close>.\<close>

fun list_index :: "'a list \<Rightarrow> 'a \<Rightarrow> error + nat" where
  "list_index [] x = Inl ValueError"
| "list_index (a # as) x =
     (if a = x then Inr 0
      else (case list_index as x of Inl ex \<Rightarrow> Inl ex | Inr i \<Rightarrow> Inr (Suc i)))"

text \<open>
  \<open>self.rangf_n_levels[self.rangf.index(ran_gf)] - 1\<close>, followed by the use of the result
  as the leading dimension of \<open>tf.zeros\<close> and \<open>tf.ones\<close>, which reject a negative dimension.
\<close>

definition rangf_n_levels_minus_one :: "model \<Rightarrow> string \<Rightarrow> error + int" where
  "rangf_n_levels_minus_one self ran_gf =
     (case list_index (rangf self) ran_gf of
        Inl ex \<Rightarrow> Inl ex
      | Inr i \<Rightarrow>
          (if i < length (rangf_n_levels self) then Inr (rangf_n_levels self ! i - 1)
           else Inl IndexError))"

definition leading_dim :: "model \<Rightarrow> string \<Rightarrow> error + nat" where
  "leading_dim self ran_gf =
     (case rangf_n_levels_minus_one self ran_gf of
        Inl ex \<Rightarrow> Inl ex
      | Inr n \<Rightarrow> (if n < 0 then Inl InvalidShape else Inr (nat n)))"

text \<open>The recurring expression \<open>self.constraint_fn(x) + self.epsilon\<close>.\<close>

definition constrain :: "model \<Rightarrow> tensor node \<Rightarrow> tensor node" where
  "constrain self x = n_map (\<lambda>v. constraint_fn self v + epsilon self) x"

text \<open>\<open>tf.ones(shape) * c\<close> and \<open>tf.zeros(shape) * c\<close> for a scalar \<open>c\<close>.\<close>

definition times_scalar :: "tensor \<Rightarrow> real \<Rightarrow> tensor" where
  "times_scalar t c = t_map (\<lambda>x. x * c) t"

text \<open>
  What a builder constructs for one parameter: the two variables, the posterior built on
  them, the mode-selected value, the summary, and the prior when one is declared. The
  Python returns the value and the summary; the other nodes are local to the builder and
  are kept here so that they can be spoken about.
\<close>

record latent =
  q_loc :: "tensor node"
  q_scale :: "tensor node"
  q_dist :: normal
  lp_value :: "tensor node"
  lp_summary :: "tensor node"
  prior_dist :: "normal option"

definition append_kl :: "model \<Rightarrow> bool \<Rightarrow> normal \<Rightarrow> normal \<Rightarrow> model" where
  "append_kl self declare q p =
     (if declare then self\<lparr>kl_penalties := kl_penalties self @ [kl_divergence q p]\<rparr> else self)"

subsection \<open>The parameter builders\<close>

text \<open>
  Each builder has a fixed-effect branch (\<open>ran_gf is None\<close>) and a random-effect branch.
  The prior is constructed, and its KL divergence from the posterior appended to
  \<open>self.kl_penalties\<close>, only under the prior toggle of the branch.
\<close>

definition initialize_intercept :: "model \<Rightarrow> string option \<Rightarrow> error + (latent \<times> model)" where
  "initialize_intercept self ran_gf =
     (case ran_gf of
        None \<Rightarrow>
          (let intercept_q_loc = tf_Variable (scalar (intercept_init_tf self));
               intercept_q_scale = tf_Variable
                 (scalar (constraint_fn_inv self (intercept_posterior_sd_init self)));
               intercept_q_dist = Normal intercept_q_loc (constrain self intercept_q_scale);
               intercept = tf_cond use_MAP_mode (mean intercept_q_dist) (sample intercept_q_dist);
               intercept_summary = mean intercept_q_dist;
               intercept_prior_dist = Normal (tf_constant (scalar (intercept_init_tf self)))
                 (tf_constant (scalar (intercept_prior_sd_tf self)))
           in Inr
               ((\<lparr>q_loc = intercept_q_loc, q_scale = intercept_q_scale,
                  q_dist = intercept_q_dist,
                  lp_value = intercept, lp_summary = intercept_summary,
                  prior_dist =
                    (if declare_priors_fixef self then Some intercept_prior_dist else None)\<rparr>),
                (append_kl self (declare_priors_fixef self) intercept_q_dist intercept_prior_dist)))
      | Some gf \<Rightarrow>
          (case leading_dim self gf of
             Inl ex \<Rightarrow> Inl ex
           | Inr rangf_n_levels' \<Rightarrow>
          (let intercept_q_loc = tf_Variable (tf_zeros [rangf_n_levels']);
               intercept_q_scale = tf_Variable
                 (times_scalar (tf_ones [rangf_n_levels'])
                    (constraint_fn_inv self
                       (intercept_ranef_posterior_sd_init self
                          * ranef_to_fixef_prior_sd_ratio self)));
               intercept_q_dist = Normal intercept_q_loc (constrain self intercept_q_scale);
               intercept = tf_cond use_MAP_mode (mean intercept_q_dist) (sample intercept_q_dist);
               intercept_summary = mean intercept_q_dist;
               intercept_prior_dist = Normal (tf_constant (scalar 0))
                 (tf_constant
                    (scalar (intercept_prior_sd_tf self * ranef_to_fixef_prior_sd_ratio self)))
           in Inr
               ((\<lparr>q_loc = intercept_q_loc, q_scale = intercept_q_scale,
                  q_dist = intercept_q_dist,
                  lp_value = intercept, lp_summary = intercept_summary,
                  prior_dist =
                    (if declare_priors_ranef self then Some intercept_prior_dist else None)\<rparr>),
                (append_kl self (declare_priors_ranef self) intercept_q_dist
                   intercept_prior_dist)))))"

text \<open>The argument \<open>coef_ids\<close> of \<open>initialize_coefficient\<close> is never read and is left out.\<close>

definition initialize_coefficient :: "model \<Rightarrow> string option \<Rightarrow> error + (latent \<times> model)" where
  "initialize_coefficient self ran_gf =
     (let units = length (impulse_names self) + 1 in
      (case resolve_sd_prior (weight_prior_sd self) units of
         Inl ex \<Rightarrow> Inl ex
       | Inr coefficient_sd_prior \<Rightarrow>
      (let coefficient_sd_posterior = coefficient_sd_prior * posterior_to_prior_sd_ratio self in
       case ran_gf of
         None \<Rightarrow>
           (let coefficient_q_loc = tf_Variable (tf_zeros [1, units]);
                coefficient_q_scale = tf_Variable
                  (times_scalar (tf_ones [1, units]) (constraint_fn_inv self coefficient_sd_posterior));
                coefficient_q_dist = Normal coefficient_q_loc (constrain self coefficient_q_scale);
                coefficient = tf_cond use_MAP_mode (mean coefficient_q_dist) (sample coefficient_q_dist);
                coefficient_summary = mean coefficient_q_dist;
                coefficient_prior_dist = Normal (tf_constant (scalar 0)) (tf_constant (scalar coefficient_sd_prior))
            in Inr
                (\<lparr>q_loc = coefficient_q_loc, q_scale = coefficient_q_scale, q_dist = coefficient_q_dist,
                  lp_value = coefficient, lp_summary = coefficient_summary,
                  prior_dist = (if declare_priors_fixef self then Some coefficient_prior_dist else None)\<rparr>,
                 append_kl self (declare_priors_fixef self) coefficient_q_dist coefficient_prior_dist))
       | Some gf \<Rightarrow>
           (case leading_dim self gf of
              Inl ex \<Rightarrow> Inl ex
            | Inr rangf_n_levels' \<Rightarrow>
           (let coefficient_q_loc = tf_Variable (tf_zeros [rangf_n_levels', units]);
                coefficient_q_scale = tf_Variable
                  (times_scalar (tf_ones [rangf_n_levels', units])
                     (constraint_fn_inv self
                        (coefficient_sd_posterior * ranef_to_fixef_prior_sd_ratio self)));
                coefficient_q_dist = Normal coefficient_q_loc (constrain self coefficient_q_scale);
                coefficient = tf_cond use_MAP_mode (mean coefficient_q_dist) (sample coefficient_q_dist);
                coefficient_summary = mean coefficient_q_dist;
                coefficient_prior_dist = Normal (tf_constant (scalar 0))
                  (tf_constant (scalar (coefficient_sd_prior * ranef_to_fixef_prior_sd_ratio self)))
            in Inr
                (\<lparr>q_loc = coefficient_q_loc, q_scale = coefficient_q_scale, q_dist = coefficient_q_dist,
                  lp_value = coefficient, lp_summary = coefficient_summary,
                  prior_dist = (if declare_priors_ranef self then Some coefficient_prior_dist else None)\<rparr>,
                 append_kl self (declare_priors_ranef self) coefficient_q_dist coefficient_prior_dist))))))"

text \<open>\<open>self.n_units_rnn[l]\<close> for a layer index \<open>l\<close> counted from zero.\<close>

definition n_units_rnn_at :: "model \<Rightarrow> nat \<Rightarrow> error + nat" where
  "n_units_rnn_at self l =
     (if l < length (n_units_rnn self) then Inr (n_units_rnn self ! l) else Inl IndexError)"

definition initialize_rnn_h :: "model \<Rightarrow> nat \<Rightarrow> string option \<Rightarrow> error + (latent \<times> model)" where
  "initialize_rnn_h self l ran_gf =
     (case n_units_rnn_at self l of
        Inl ex \<Rightarrow> Inl ex
      | Inr units \<Rightarrow>
      (case resolve_sd_prior (bias_prior_sd self) units of
         Inl ex \<Rightarrow> Inl ex
       | Inr rnn_h_sd_prior \<Rightarrow>
      (let rnn_h_sd_posterior = rnn_h_sd_prior * posterior_to_prior_sd_ratio self in
       case ran_gf of
         None \<Rightarrow>
           (let rnn_h_q_loc = tf_Variable (tf_zeros [1, units]);
                rnn_h_q_scale = tf_Variable
                  (times_scalar (tf_ones [1, units]) (constraint_fn_inv self rnn_h_sd_posterior));
                rnn_h_q_dist = Normal rnn_h_q_loc (constrain self rnn_h_q_scale);
                rnn_h = tf_cond use_MAP_mode (mean rnn_h_q_dist) (sample rnn_h_q_dist);
                rnn_h_summary = mean rnn_h_q_dist;
                rnn_h_prior_dist = Normal (tf_constant (scalar 0)) (tf_constant (scalar rnn_h_sd_prior))
            in Inr
                (\<lparr>q_loc = rnn_h_q_loc, q_scale = rnn_h_q_scale, q_dist = rnn_h_q_dist,
                  lp_value = rnn_h, lp_summary = rnn_h_summary,
                  prior_dist = (if declare_priors_fixef self then Some rnn_h_prior_dist else None)\<rparr>,
                 append_kl self (declare_priors_fixef self) rnn_h_q_dist rnn_h_prior_dist))
       | Some gf \<Rightarrow>
           (case leading_dim self gf of
              Inl ex \<Rightarrow> Inl ex
            | Inr rangf_n_levels' \<Rightarrow>
           (let rnn_h_q_loc = tf_Variable (tf_zeros [rangf_n_levels', units]);
                rnn_h_q_scale = tf_Variable
                  (times_scalar (tf_ones [rangf_n_levels', units])
                     (constraint_fn_inv self
                        (rnn_h_sd_posterior * ranef_to_fixef_prior_sd_ratio self)));
                rnn_h_q_dist = Normal rnn_h_q_loc (constrain self rnn_h_q_scale);
                rnn_h = tf_cond use_MAP_mode (mean rnn_h_q_dist) (sample rnn_h_q_dist);
                rnn_h_summary = mean rnn_h_q_dist;
                rnn_h_prior_dist = Normal (tf_constant (scalar 0))
                  (tf_constant (scalar (rnn_h_sd_prior * ranef_to_fixef_prior_sd_ratio self)))
            in Inr
                (\<lparr>q_loc = rnn_h_q_loc, q_scale = rnn_h_q_scale, q_dist = rnn_h_q_dist,
                  lp_value = rnn_h, lp_summary = rnn_h_summary,
                  prior_dist = (if declare_priors_ranef self then Some rnn_h_prior_dist else None)\<rparr>,
                 append_kl self (declare_priors_ranef self) rnn_h_q_dist rnn_h_prior_dist))))))"

definition initialize_rnn_c :: "model \<Rightarrow> nat \<Rightarrow> string option \<Rightarrow> error + (latent \<times> model)" where
  "initialize_rnn_c self l ran_gf =
     (case n_units_rnn_at self l of
        Inl ex \<Rightarrow> Inl ex
      | Inr units \<Rightarrow>
      (case resolve_sd_prior (bias_prior_sd self) units of
         Inl ex \<Rightarrow> Inl ex
       | Inr rnn_c_sd_prior \<Rightarrow>
      (let rnn_c_sd_posterior = rnn_c_sd_prior * posterior_to_prior_sd_ratio self in
       case ran_gf of
         None \<Rightarrow>
           (let rnn_c_q_loc = tf_Variable (tf_zeros [1, units]);
                rnn_c_q_scale = tf_Variable
                  (times_scalar (tf_ones [1, units]) (constraint_fn_inv self rnn_c_sd_posterior));
                rnn_c_q_dist = Normal rnn_c_q_loc (constrain self rnn_c_q_scale);
                rnn_c = tf_cond use_MAP_mode (mean rnn_c_q_dist) (sample rnn_c_q_dist);
                rnn_c_summary = mean rnn_c_q_dist;
                rnn_c_prior_dist = Normal (tf_constant (scalar 0)) (tf_constant (scalar rnn_c_sd_prior))
            in Inr
                (\<lparr>q_loc = rnn_c_q_loc, q_scale = rnn_c_q_scale, q_dist = rnn_c_q_dist,
                  lp_value = rnn_c, lp_summary = rnn_c_summary,
                  prior_dist = (if declare_priors_fixef self then Some rnn_c_prior_dist else None)\<rparr>,
                 append_kl self (declare_priors_fixef self) rnn_c_q_dist rnn_c_prior_dist))
       | Some gf \<Rightarrow>
           (case leading_dim self gf of
              Inl ex \<Rightarrow> Inl ex
            | Inr rangf_n_levels' \<Rightarrow>
           (let rnn_c_q_loc = tf_Variable (tf_zeros [rangf_n_levels', units]);
                rnn_c_q_scale = tf_Variable
                  (times_scalar (tf_ones [rangf_n_levels', units])
                     (constraint_fn_inv self
                        (rnn_c_sd_posterior * ranef_to_fixef_prior_sd_ratio self)));
                rnn_c_q_dist = Normal rnn_c_q_loc (constrain self rnn_c_q_scale);
                rnn_c = tf_cond use_MAP_mode (mean rnn_c_q_dist) (sample rnn_c_q_dist);
                rnn_c_summary = mean rnn_c_q_dist;
                rnn_c_prior_dist = Normal (tf_constant (scalar 0))
                  (tf_constant (scalar (rnn_c_sd_prior * ranef_to_fixef_prior_sd_ratio self)))
            in Inr
                (\<lparr>q_loc = rnn_c_q_loc, q_scale = rnn_c_q_scale, q_dist = rnn_c_q_dist,
                  lp_value = rnn_c, lp_summary = rnn_c_summary,
                  prior_dist = (if declare_priors_ranef self then Some rnn_c_prior_dist else None)\<rparr>,
                 append_kl self (declare_priors_ranef self) rnn_c_q_dist rnn_c_prior_dist))))))"

definition initialize_h_bias :: "model \<Rightarrow> string option \<Rightarrow> error + (latent \<times> model)" where
  "initialize_h_bias self ran_gf =
     (let units = n_units_hidden_state self in
      (case resolve_sd_prior (bias_prior_sd self) units of
         Inl ex \<Rightarrow> Inl ex
       | Inr h_bias_sd_prior \<Rightarrow>
      (let h_bias_sd_posterior = h_bias_sd_prior * posterior_to_prior_sd_ratio self in
       case ran_gf of
         None \<Rightarrow>
           (let h_bias_q_loc = tf_Variable (tf_zeros [1, 1, units]);
                h_bias_q_scale = tf_Variable
                  (times_scalar (tf_ones [1, 1, units]) (constraint_fn_inv self h_bias_sd_posterior));
                h_bias_q_dist = Normal h_bias_q_loc (constrain self h_bias_q_scale);
                h_bias = tf_cond use_MAP_mode (mean h_bias_q_dist) (sample h_bias_q_dist);
                h_bias_summary = mean h_bias_q_dist;
                h_bias_prior_dist = Normal (tf_constant (scalar 0)) (tf_constant (scalar h_bias_sd_prior))
            in Inr
                (\<lparr>q_loc = h_bias_q_loc, q_scale = h_bias_q_scale, q_dist = h_bias_q_dist,
                  lp_value = h_bias, lp_summary = h_bias_summary,
                  prior_dist = (if declare_priors_fixef self then Some h_bias_prior_dist else None)\<rparr>,
                 append_kl self (declare_priors_fixef self) h_bias_q_dist h_bias_prior_dist))
       | Some gf \<Rightarrow>
           (case leading_dim self gf of
              Inl ex \<Rightarrow> Inl ex
            | Inr rangf_n_levels' \<Rightarrow>
           (let h_bias_q_loc = tf_Variable (tf_zeros [rangf_n_levels', units]);
                h_bias_q_scale = tf_Variable
                  (times_scalar (tf_ones [rangf_n_levels', units])
                     (constraint_fn_inv self
                        (h_bias_sd_posterior * ranef_to_fixef_prior_sd_ratio self)));
                h_bias_q_dist = Normal h_bias_q_loc (constrain self h_bias_q_scale);
                h_bias = tf_cond use_MAP_mode (mean h_bias_q_dist) (sample h_bias_q_dist);
                h_bias_summary = mean h_bias_q_dist;
                h_bias_prior_dist = Normal (tf_constant (scalar 0))
                  (tf_constant (scalar (h_bias_sd_prior * h_bias_sd_prior)))
            in Inr
                (\<lparr>q_loc = h_bias_q_loc, q_scale = h_bias_q_scale, q_dist = h_bias_q_dist,
                  lp_value = h_bias, lp_summary = h_bias_summary,
                  prior_dist = (if declare_priors_ranef self then Some h_bias_prior_dist else None)\<rparr>,
                 append_kl self (declare_priors_ranef self) h_bias_q_dist h_bias_prior_dist))))))"

text \<open>
  \<open>initialize_irf_l1_biases\<close> builds two parameters in sequence, the weight bias from
  \<open>weight_prior_sd\<close> and the input bias from \<open>bias_prior_sd\<close>, and returns both.
\<close>

definition initialize_irf_l1_W_bias :: "model \<Rightarrow> string option \<Rightarrow> error + (latent \<times> model)" where
  "initialize_irf_l1_W_bias self ran_gf =
     (let units = n_units_t_delta_embedding self in
      (case resolve_sd_prior (weight_prior_sd self) units of
         Inl ex \<Rightarrow> Inl ex
       | Inr irf_l1_W_bias_sd_prior \<Rightarrow>
      (let irf_l1_W_bias_sd_posterior = irf_l1_W_bias_sd_prior * posterior_to_prior_sd_ratio self in
       case ran_gf of
         None \<Rightarrow>
           (let irf_l1_W_bias_q_loc = tf_Variable (tf_zeros [1, 1, units]);
                irf_l1_W_bias_q_scale = tf_Variable
                  (times_scalar (tf_zeros [1, 1, units]) (constraint_fn_inv self irf_l1_W_bias_sd_posterior));
                irf_l1_W_bias_q_dist = Normal irf_l1_W_bias_q_loc (constrain self irf_l1_W_bias_q_scale);
                irf_l1_W_bias = tf_cond use_MAP_mode (mean irf_l1_W_bias_q_dist) (sample irf_l1_W_bias_q_dist);
                irf_l1_W_bias_summary = mean irf_l1_W_bias_q_dist;
                irf_l1_W_bias_prior_dist = Normal (tf_constant (scalar 0)) (tf_constant (scalar irf_l1_W_bias_sd_prior))
            in Inr
                (\<lparr>q_loc = irf_l1_W_bias_q_loc, q_scale = irf_l1_W_bias_q_scale, q_dist = irf_l1_W_bias_q_dist,
                  lp_value = irf_l1_W_bias, lp_summary = irf_l1_W_bias_summary,
                  prior_dist = (if declare_priors_fixef self then Some irf_l1_W_bias_prior_dist else None)\<rparr>,
                 append_kl self (declare_priors_fixef self) irf_l1_W_bias_q_dist irf_l1_W_bias_prior_dist))
       | Some gf \<Rightarrow>
           (case leading_dim self gf of
              Inl ex \<Rightarrow> Inl ex
            | Inr rangf_n_levels' \<Rightarrow>
           (let irf_l1_W_bias_q_loc = tf_Variable (tf_zeros [rangf_n_levels', units]);
                irf_l1_W_bias_q_scale = tf_Variable
                  (times_scalar (tf_ones [rangf_n_levels', units])
                     (constraint_fn_inv self
                        (irf_l1_W_bias_sd_posterior * ranef_to_fixef_prior_sd_ratio self)));
                irf_l1_W_bias_q_dist = Normal irf_l1_W_bias_q_loc (constrain self irf_l1_W_bias_q_scale);
                irf_l1_W_bias = tf_cond use_MAP_mode (mean irf_l1_W_bias_q_dist) (sample irf_l1_W_bias_q_dist);
                irf_l1_W_bias_summary = mean irf_l1_W_bias_q_dist;
                irf_l1_W_bias_prior_dist = Normal (tf_constant (scalar 0))
                  (tf_constant (scalar (irf_l1_W_bias_sd_prior * ranef_to_fixef_prior_sd_ratio self)))
            in Inr
                (\<lparr>q_loc = irf_l1_W_bias_q_loc, q_scale = irf_l1_W_bias_q_scale, q_dist = irf_l1_W_bias_q_dist,
                  lp_value = irf_l1_W_bias, lp_summary = irf_l1_W_bias_summary,
                  prior_dist = (if declare_priors_ranef self then Some irf_l1_W_bias_prior_dist else None)\<rparr>,
                 append_kl self (declare_priors_ranef self) irf_l1_W_bias_q_dist irf_l1_W_bias_prior_dist))))))"

definition initialize_irf_l1_b_bias :: "model \<Rightarrow> string option \<Rightarrow> error + (latent \<times> model)" where
  "initialize_irf_l1_b_bias self ran_gf =
     (let units = n_units_t_delta_embedding self in
      (case resolve_sd_prior (bias_prior_sd self) units of
         Inl ex \<Rightarrow> Inl ex
       | Inr irf_l1_b_bias_sd_prior \<Rightarrow>
      (let irf_l1_b_bias_sd_posterior = irf_l1_b_bias_sd_prior * posterior_to_prior_sd_ratio self in
       case ran_gf of
         None \<Rightarrow>
           (let irf_l1_b_bias_q_loc = tf_Variable (tf_zeros [1, 1, units]);
                irf_l1_b_bias_q_scale = tf_Variable
                  (times_scalar (tf_zeros [1, 1, units]) (constraint_fn_inv self irf_l1_b_bias_sd_posterior));
                irf_l1_b_bias_q_dist = Normal irf_l1_b_bias_q_loc (constrain self irf_l1_b_bias_q_scale);
                irf_l1_b_bias = tf_cond use_MAP_mode (mean irf_l1_b_bias_q_dist) (sample irf_l1_b_bias_q_dist);
                irf_l1_b_bias_summary = mean irf_l1_b_bias_q_dist;
                irf_l1_b_bias_prior_dist = Normal (tf_constant (scalar 0)) (tf_constant (scalar irf_l1_b_bias_sd_prior))
            in Inr
                (\<lparr>q_loc = irf_l1_b_bias_q_loc, q_scale = irf_l1_b_bias_q_scale, q_dist = irf_l1_b_bias_q_dist,
                  lp_value = irf_l1_b_bias, lp_summary = irf_l1_b_bias_summary,
                  prior_dist = (if declare_priors_fixef self then Some irf_l1_b_bias_prior_dist else None)\<rparr>,
                 append_kl self (declare_priors_fixef self) irf_l1_b_bias_q_dist irf_l1_b_bias_prior_dist))
       | Some gf \<Rightarrow>
           (case leading_dim self gf of
              Inl ex \<Rightarrow> Inl ex
            | Inr rangf_n_levels' \<Rightarrow>
           (let irf_l1_b_bias_q_loc = tf_Variable (tf_zeros [rangf_n_levels', units]);
                irf_l1_b_bias_q_scale = tf_Variable
                  (times_scalar (tf_ones [rangf_n_levels', units])
                     (constraint_fn_inv self
                        (irf_l1_b_bias_sd_posterior * ranef_to_fixef_prior_sd_ratio self)));
                irf_l1_b_bias_q_dist = Normal irf_l1_b_bias_q_loc (constrain self irf_l1_b_bias_q_scale);
                irf_l1_b_bias = tf_cond use_MAP_mode (mean irf_l1_b_bias_q_dist) (sample irf_l1_b_bias_q_dist);
                irf_l1_b_bias_summary = mean irf_l1_b_bias_q_dist;
                irf_l1_b_bias_prior_dist = Normal (tf_constant (scalar 0))
                  (tf_constant (scalar (irf_l1_b_bias_sd_prior * ranef_to_fixef_prior_sd_ratio self)))
            in Inr
                (\<lparr>q_loc = irf_l1_b_bias_q_loc, q_scale = irf_l1_b_bias_q_scale, q_dist = irf_l1_b_bias_q_dist,
                  lp_value = irf_l1_b_bias, lp_summary = irf_l1_b_bias_summary,
                  prior_dist = (if declare_priors_ranef self then Some irf_l1_b_bias_prior_dist else None)\<rparr>,
                 append_kl self (declare_priors_ranef self) irf_l1_b_bias_q_dist irf_l1_b_bias_prior_dist))))))"

definition initialize_irf_l1_biases ::
  "model \<Rightarrow> string option \<Rightarrow> error + (latent \<times> latent \<times> model)" where
  "initialize_irf_l1_biases self ran_gf =
     (case initialize_irf_l1_W_bias self ran_gf of
        Inl ex \<Rightarrow> Inl ex
      | Inr (irf_l1_W_bias, self') \<Rightarrow>
          (case initialize_irf_l1_b_bias self' ran_gf of
             Inl ex \<Rightarrow> Inl ex
           | Inr (irf_l1_b_bias, self'') \<Rightarrow> Inr (irf_l1_W_bias, irf_l1_b_bias, self'')))"

subsection \<open>\<open>_initialize_output_model\<close>\<close>

text \<open>
  The attributes the method sets. An attribute that only some branches set is an option.
  \<open>out\<close> is \<open>self.out\<close> after the method has rebound it. The plotting diagnostics (density
  over the support grid, quantiles, CDF) are not represented, except that reading
  \<open>self.err_dist_standardized\<close> for them fails where no branch has set that attribute.
  In \<open>initialize_output_model\<close> the record \<open>base\<close> collects what the branch without
  standardization assigns; the branch with standardization assigns the fields it
  overrides.
\<close>

record output_model =
  y_sd_dist :: "normal option"
  y_sd :: "tensor node"
  y_sd_summary :: "tensor node"
  y_skewness_dist :: "normal option"
  y_skewness :: "tensor node option"
  y_skewness_summary :: "tensor node option"
  y_tailweight_dist :: "normal option"
  y_tailweight :: "tensor node option"
  y_tailweight_summary :: "tensor node option"
  out_standardized_dist :: "dist option"
  out_standardized :: "tensor node option"
  err_dist_standardized :: "dist option"
  err_dist_standardized_dist :: "dist option"
  err_dist_standardized_summary :: "dist option"
  out_dist :: dist
  out :: "tensor node"
  err_dist :: dist
  err :: "tensor node"
  err_dist_summary :: dist
  ll_standardized :: "real list node option"

definition SinhArcsinh ::
  "tensor node \<Rightarrow> tensor node \<Rightarrow> tensor node \<Rightarrow> tensor node \<Rightarrow> sinh_arcsinh" where
  "SinhArcsinh l s sk tw = \<lparr>sas_loc = l, sas_scale = s, sas_skewness = sk, sas_tailweight = tw\<rparr>"

text \<open>The scale parameter of the error distribution (lines 736 to 782).\<close>

definition initialize_y_sd ::
  "model \<Rightarrow> (normal option \<times> tensor node \<times> tensor node) \<times> model" where
  "initialize_y_sd self =
     (if y_sd_trainable self then
        (let y_sd_init_unconstrained' = y_sd_init_unconstrained self;
             y_sd_loc_q = tf_Variable (scalar y_sd_init_unconstrained');
             y_sd_scale_q = tf_Variable
               (scalar (constraint_fn_inv self (y_sd_posterior_sd_init self)));
             y_sd_dist' = Normal y_sd_loc_q (constrain self y_sd_scale_q);
             y_sd0 = n_bcast2 (+) (tf_cond use_MAP_mode (mean y_sd_dist') (sample y_sd_dist'))
                       (y_sd_delta self);
             y_sd_summary0 = n_bcast2 (+) (mean y_sd_dist') y_sd_delta_ema;
             y_sd_prior = Normal (tf_constant (scalar y_sd_init_unconstrained'))
                            (tf_constant (scalar (y_sd_prior_sd_tf self)));
             self' = append_kl self (declare_priors_fixef self) y_sd_dist' y_sd_prior;
             y_sd' = constrain self y_sd0;
             y_sd_summary' = constrain self y_sd_summary0
         in ((Some y_sd_dist', y_sd', y_sd_summary'), self'))
      else
        (let y_sd' = tf_constant (scalar (y_sd_init_tf self));
             y_sd_summary' = y_sd'
         in ((None, y_sd', y_sd_summary'), self)))"

definition initialize_output_model :: "sas_lib \<Rightarrow> model \<Rightarrow> error + (output_model \<times> model)" where
  "initialize_output_model lib self0 =
     (case initialize_y_sd self0 of ((y_sd_dist', y_sd', y_sd_summary'), self1) \<Rightarrow>
      (let destandardize = (\<lambda>v. v * y_train_sd self0 + y_train_mean self0);
           rescale = (\<lambda>v. v * y_train_sd self0);
           zero = tf_constant (scalar 0);
           om_self =
        (if asymmetric_error self0 then
           (let y_skewness_loc_q = tf_Variable (scalar 0);
                y_skewness_scale_q = tf_Variable
                  (scalar (constraint_fn_inv self0 (y_skewness_posterior_sd_init self0)));
                y_skewness_dist' = Normal y_skewness_loc_q (constrain self0 y_skewness_scale_q);
                y_skewness' = n_bcast2 (+)
                  (tf_cond use_MAP_mode (mean y_skewness_dist') (sample y_skewness_dist'))
                  (y_skewness_delta self0);
                y_skewness_summary' =
                  n_bcast2 (+) (mean y_skewness_dist') y_skewness_delta_ema;
                y_tailweight_loc_q = tf_Variable
                  (scalar (constraint_fn_inv self0 (y_tailweight_posterior_loc_init self0)));
                y_tailweight_scale_q = tf_Variable
                  (scalar (constraint_fn_inv self0 (y_tailweight_posterior_sd_init self0)));
                y_tailweight_dist' =
                  Normal y_tailweight_loc_q (constrain self0 y_tailweight_scale_q);
                y_tailweight' = n_bcast2 (+)
                  (tf_cond use_MAP_mode (mean y_tailweight_dist') (sample y_tailweight_dist'))
                  (y_tailweight_delta self0);
                y_tailweight_summary' =
                  n_bcast2 (+) (mean y_tailweight_dist') y_tailweight_delta_ema;
                y_skewness_prior = Normal zero (tf_constant (scalar (y_skewness_prior_sd_tf self0)));
                y_tailweight_prior =
                  Normal (tf_constant (scalar (constraint_fn_inv self0 (y_tailweight_prior_loc self0))))
                    (tf_constant (scalar (y_tailweight_prior_sd_tf self0)));
                self2 = append_kl
                          (append_kl self1 (declare_priors_fixef self0) y_skewness_dist'
                             y_skewness_prior)
                          (declare_priors_fixef self0) y_tailweight_dist' y_tailweight_prior;
                tw = constrain self0 y_tailweight';
                tw_summary = constrain self0 y_tailweight_summary';
                base = \<lparr>y_sd_dist = y_sd_dist', y_sd = y_sd', y_sd_summary = y_sd_summary',
                         y_skewness_dist = Some y_skewness_dist',
                         y_skewness = Some y_skewness',
                         y_skewness_summary = Some y_skewness_summary',
                         y_tailweight_dist = Some y_tailweight_dist',
                         y_tailweight = Some y_tailweight',
                         y_tailweight_summary = Some y_tailweight_summary',
                         out_standardized_dist = None, out_standardized = None,
                         err_dist_standardized = None, err_dist_standardized_dist = None,
                         err_dist_standardized_summary = None,
                         out_dist = DSinhArcsinh (SinhArcsinh (net_out self0) y_sd' y_skewness' tw),
                         out = net_out self0,
                         err_dist = DSinhArcsinh (SinhArcsinh zero y_sd' y_skewness' tw),
                         err = zero,
                         err_dist_summary =
                           DSinhArcsinh (SinhArcsinh zero y_sd_summary' y_skewness_summary' tw_summary),
                         ll_standardized = None\<rparr>
            in if standardize_response self0 then
                 (let out_standardized_dist' =
                        DSinhArcsinh (SinhArcsinh (net_out self0) y_sd' y_skewness' tw);
                      out_dist' = DSinhArcsinh
                        (SinhArcsinh (n_map destandardize (net_out self0)) (n_map rescale y_sd')
                           y_skewness' tw);
                      err_dist' = DSinhArcsinh
                        (SinhArcsinh zero (n_map rescale y_sd') y_skewness' tw)
                  in (base\<lparr>
                        out_standardized_dist := Some out_standardized_dist',
                        out_standardized := Some
                          (tf_cond use_MAP_mode (dist_mean lib out_standardized_dist')
                             (dist_sample lib out_standardized_dist')),
                        err_dist_standardized_dist := Some
                          (DSinhArcsinh (SinhArcsinh zero y_sd' y_skewness' tw)),
                        err_dist_standardized_summary := Some
                          (DSinhArcsinh
                             (SinhArcsinh zero y_sd_summary' y_skewness_summary' tw_summary)),
                        out_dist := out_dist',
                        out := tf_cond use_MAP_mode (dist_mean lib out_dist')
                                 (dist_sample lib out_dist'),
                        err_dist := err_dist',
                        err := tf_cond use_MAP_mode (dist_mean lib err_dist')
                                 (dist_sample lib err_dist'),
                        err_dist_summary := DSinhArcsinh
                          (SinhArcsinh zero (n_map rescale y_sd_summary') y_skewness_summary'
                             tw_summary)\<rparr>, self2))
               else
                 (base\<lparr>
                    out := tf_cond use_MAP_mode (dist_mean lib (out_dist base))
                             (dist_sample lib (out_dist base)),
                    err := tf_cond use_MAP_mode (dist_mean lib (err_dist base))
                             (dist_sample lib (err_dist base))\<rparr>, self2))
         else
           (let base = \<lparr>y_sd_dist = y_sd_dist', y_sd = y_sd', y_sd_summary = y_sd_summary',
                         y_skewness_dist = None, y_skewness = None, y_skewness_summary = None,
                         y_tailweight_dist = None, y_tailweight = None,
                         y_tailweight_summary = None,
                         out_standardized_dist = None, out_standardized = None,
                         err_dist_standardized = None, err_dist_standardized_dist = None,
                         err_dist_standardized_summary = None,
                         out_dist = DNormal (Normal (net_out self0) y_sd'),
                         out = net_out self0,
                         err_dist = DNormal (Normal zero y_sd'),
                         err = zero,
                         err_dist_summary = DNormal (Normal zero y_sd_summary'),
                         ll_standardized = None\<rparr>
            in if standardize_response self0 then
                 (let out_standardized_dist' = DNormal (Normal (net_out self0) y_sd');
                      out_dist' = DNormal
                        (Normal (n_map destandardize (net_out self0)) (n_map rescale y_sd'));
                      err_dist' = DNormal (Normal zero (n_map rescale y_sd'))
                  in (base\<lparr>
                        out_standardized_dist := Some out_standardized_dist',
                        out_standardized := Some
                          (tf_cond use_MAP_mode (dist_mean lib out_standardized_dist')
                             (dist_sample lib out_standardized_dist')),
                        err_dist_standardized := Some (DNormal (Normal zero y_sd')),
                        err_dist_standardized_summary := Some
                          (DNormal (Normal zero y_sd_summary')),
                        out_dist := out_dist',
                        out := tf_cond use_MAP_mode (dist_mean lib out_dist')
                                 (dist_sample lib out_dist'),
                        err_dist := err_dist',
                        err := tf_cond use_MAP_mode (dist_mean lib err_dist')
                                 (dist_sample lib err_dist'),
                        err_dist_summary :=
                          DNormal (Normal zero (n_map rescale y_sd_summary'))\<rparr>, self1))
               else
                 (base\<lparr>
                    out := tf_cond use_MAP_mode (dist_mean lib (out_dist base))
                             (dist_sample lib (out_dist base)),
                    err := tf_cond use_MAP_mode (dist_mean lib (err_dist base))
                             (dist_sample lib (err_dist base))\<rparr>, self1)))
       in case om_self of (om, self3) \<Rightarrow>
          (if standardize_response self0 then
             (case err_dist_standardized om of
                None \<Rightarrow> Inl (AttributeError ''err_dist_standardized'')
              | Some _ \<Rightarrow>
                 (case out_standardized_dist om of
                    None \<Rightarrow> Inl (AttributeError ''out_standardized_dist'')
                  | Some osd \<Rightarrow>
                      Inr (om\<lparr>ll_standardized := Some
                             (\<lambda>e. log_prob lib osd
                                     (map (\<lambda>v. (v - y_train_mean self0) / y_train_sd self0)
                                        (feed_y e)) e)\<rparr>,
                           self3)))
           else Inr (om, self3))))"

subsection \<open>\<open>initialize_objective\<close>\<close>

text \<open>Python truthiness of an optional number: \<open>None\<close> and zero are false.\<close>

definition truthy :: "real option \<Rightarrow> bool" where
  "truthy x = (case x of None \<Rightarrow> False | Some v \<Rightarrow> v \<noteq> 0)"

text \<open>
  The test \<open>self.loss_filter_n_sds and self.ema_decay\<close>: the filter is configured when both
  numbers are given and non-zero.
\<close>

definition filter_config :: "model \<Rightarrow> (real \<times> real) option" where
  "filter_config self =
     (case loss_filter_n_sds self of
        None \<Rightarrow> None
      | Some n_sds \<Rightarrow>
          (case ema_decay self of
             None \<Rightarrow> None
           | Some beta \<Rightarrow> (if n_sds \<noteq> 0 \<and> beta \<noteq> 0 then Some (n_sds, beta) else None)))"

text \<open>\<open>int(x)\<close> on a float truncates towards zero.\<close>

definition py_int :: "real \<Rightarrow> int" where
  "py_int x = (if 0 \<le> x then \<lfloor>x\<rfloor> else \<lceil>x\<rceil>)"

text \<open>\<open>'bias' in name\<close>: the substring test.\<close>

definition is_substring :: "string \<Rightarrow> string \<Rightarrow> bool" where
  "is_substring p s = list_ex (\<lambda>k. take (length p) (drop k s) = p) [0..<Suc (length s)]"

text \<open>
  Modelled from the spec: \<open>_regularize\<close> of the base class, for \<open>type='nn'\<close>. With no
  regularizer configured it does nothing.
\<close>

definition regularize :: "model \<Rightarrow> tf_var \<Rightarrow> model" where
  "regularize self v =
     (case nn_regularizer self of
        None \<Rightarrow> self
      | Some r \<Rightarrow>
          self\<lparr>regularizer_losses := regularizer_losses self @ [r (var_value v)],
               regularizer_losses_varnames :=
                 regularizer_losses_varnames self @ [reg_name self (var_name v)]\<rparr>)"

fun layer_vars :: "layer \<Rightarrow> tf_var list" where
  "layer_vars (Layer weights) = weights"
| "layer_vars (BareVar l) = [l]"

fun regularize_vars :: "model \<Rightarrow> tf_var list \<Rightarrow> model" where
  "regularize_vars self [] = self"
| "regularize_vars self (v # vs) =
     regularize_vars (if \<not> is_substring ''bias'' (var_name v) then regularize self v else self) vs"

fun regularize_layers :: "model \<Rightarrow> layer list \<Rightarrow> model" where
  "regularize_layers self [] = self"
| "regularize_layers self (l # ls) = regularize_layers (regularize_vars self (layer_vars l)) ls"

text \<open>
  The result of assembling the objective. The diagnostics \<open>mae_loss\<close> and \<open>mse_loss\<close> and
  the operation \<open>train_op\<close> are not represented; the optimizer, whose constructor belongs
  to the base class, is represented by its name. \<open>loss_func_per_example\<close> is the local tensor
  \<open>loss_func\<close> just before it is reduced; \<open>loss_func\<close> is the attribute \<open>self.loss_func\<close>
  at the end. \<open>n_dropped\<close>, \<open>loss_ema_op\<close> and \<open>loss_sd_ema_op\<close> exist only when the filter
  is configured; an assignment operation is represented by the value it assigns.
  \<open>loss_mean_cur\<close> and \<open>loss_sd_cur\<close> are the locals of those names.
\<close>

record objective =
  obj_om :: output_model
  ll :: "real list node"
  n_dropped :: "real node option"
  loss_mean_cur :: "real node option"
  loss_sd_cur :: "real node option"
  loss_ema_op :: "real node option"
  loss_sd_ema_op :: "real node option"
  loss_func_per_example :: "real list node"
  loss_func :: "real node"
  reg_loss :: "real node"
  kl_loss :: "real node"
  optim :: string
  final_self :: model

definition reduce_mean :: "real list \<Rightarrow> real" where
  "reduce_mean xs = sum_list xs / real (length xs)"

definition initialize_objective :: "sas_lib \<Rightarrow> model \<Rightarrow> error + objective" where
  "initialize_objective lib self0 =
     (case initialize_output_model lib self0 of
        Inl ex \<Rightarrow> Inl ex
      | Inr (om', self1) \<Rightarrow>
     (let ll' = (\<lambda>e. log_prob lib (out_dist om') (feed_y e) e);
          loss_func0 = (\<lambda>e. map uminus (ll' e))
      in
      case
        (case filter_config self1 of
           Some (n_sds, beta) \<Rightarrow>
              (if 1 - beta = 0 then Inl ZeroDivisionError
               else
                 (let ema_warm_up = py_int (2 / (1 - beta));
                      loss_cutoff = (\<lambda>e. loss_ema e + n_sds * loss_sd_ema e);
                      loss_func_filter =
                        (\<lambda>e. map (\<lambda>x. if x < loss_cutoff e then 1 else (0::real)) (loss_func0 e));
                      loss_func_filtered =
                        (\<lambda>e. map2 (*) (loss_func0 e) (loss_func_filter e));
                      n_batch = (\<lambda>e. real (length (loss_func0 e)));
                      n_retained0 = (\<lambda>e. sum_list (loss_func_filter e));
                      n_dropped' = (\<lambda>e. n_batch e - n_retained0 e);
                      loss_func1 = tf_cond (\<lambda>e. global_batch_step e > ema_warm_up)
                                     loss_func_filtered loss_func0;
                      n_retained = tf_cond (\<lambda>e. global_batch_step e > ema_warm_up)
                                     n_retained0 n_batch;
                      loss_mean_cur' =
                        (\<lambda>e. sum_list (loss_func1 e) / (n_retained e + epsilon self1));
                      loss_sd_cur' =
                        (\<lambda>e. sqrt (sum_list (map (\<lambda>x. (x - loss_ema e)\<^sup>2) (loss_func1 e)))
                               / (n_retained e + epsilon self1));
                      loss_ema_update =
                        (\<lambda>e. beta * loss_ema e + (1 - beta) * loss_mean_cur' e);
                      loss_sd_ema_update =
                        (\<lambda>e. beta * loss_sd_ema e + (1 - beta) * loss_sd_cur' e)
                  in Inr (loss_func1, Some n_dropped', Some loss_mean_cur', Some loss_sd_cur',
                          Some loss_ema_update, Some loss_sd_ema_update)))
         | None \<Rightarrow> Inr (loss_func0, None, None, None, None, None))
      of
        Inl ex \<Rightarrow> Inl ex
      | Inr (loss_func1, n_dropped', loss_mean_cur', loss_sd_cur', loss_ema_op', loss_sd_ema_op') \<Rightarrow>
     (let loss_func2 =
            (if scale_loss_with_data self1
             then (\<lambda>e. sum_list (loss_func1 e) * minibatch_scale self1 e)
             else (\<lambda>e. reduce_mean (loss_func1 e)));
          self2 = regularize_layers self1 (regularizable_layers self1);
          reg_loss0 = tf_constant (0::real)
      in
      case
        (if length (regularizer_losses_varnames self2) \<noteq> 0 then
           (if regularizer_losses self2 = [] then Inl ValueError
            else
              (let reg_loss1 = (\<lambda>e. reg_loss0 e + sum_list (map (\<lambda>r. r e) (regularizer_losses self2)))
               in Inr (reg_loss1, (\<lambda>e. loss_func2 e + reg_loss1 e))))
         else Inr (reg_loss0, loss_func2))
      of
        Inl ex \<Rightarrow> Inl ex
      | Inr (reg_loss1, loss_func3) \<Rightarrow>
     (let kl_loss0 = tf_constant (0::real);
          kl_loss1 =
            (if length (kl_penalties self2) \<noteq> 0
             then (\<lambda>e. kl_loss0 e + sum_list (map (\<lambda>x. reduce_sum (x e)) (kl_penalties self2)))
             else kl_loss0);
          loss_func4 =
            (if length (kl_penalties self2) \<noteq> 0 then (\<lambda>e. loss_func3 e + kl_loss1 e)
             else loss_func3);
          reg_loss2 =
            (if length (kl_penalties self2) \<noteq> 0 then (\<lambda>e. reg_loss1 e + kl_loss1 e)
             else reg_loss1)
      in
      case optim_name self2 of
        None \<Rightarrow> Inl (AssertionError ''An optimizer name must be supplied'')
      | Some name \<Rightarrow>
          Inr \<lparr>obj_om = om', ll = ll', n_dropped = n_dropped',
               loss_mean_cur = loss_mean_cur', loss_sd_cur = loss_sd_cur',
               loss_ema_op = loss_ema_op', loss_sd_ema_op = loss_sd_ema_op',
               loss_func_per_example = loss_func1, loss_func = loss_func4,
               reg_loss = reg_loss2, kl_loss = kl_loss1, optim = name,
               final_self = self2\<rparr>))))"

subsection \<open>The training and prediction drivers\<close>

text \<open>
  \<open>run_train_step\<close> fetches a list of operations and returns the last fetched values under
  the names \<open>n_dropped\<close> (when the filter is configured), \<open>loss\<close> and \<open>reg_loss\<close>. The
  operations of the base class that it also runs are parameters (\<open>base_ops\<close>); a fetched
  operation without a value yields \<open>None\<close>. All fetches of one call read the variables as
  they are before the call. Together with the dictionary the model returns the environment
  after the step: the two running statistics assigned and the step counter advanced by the
  optimizer.
\<close>

record base_ops =
  ema_op :: "real option node"
  y_sd_delta_ema_op :: "real option node"
  rnn_h_ema_ops :: "real option node list"
  rnn_c_ema_ops :: "real option node list"
  y_skewness_delta_ema_op :: "real option node"
  y_tailweight_delta_ema_op :: "real option node"

definition fetch :: "real node \<Rightarrow> real option node" where
  "fetch x = (\<lambda>e. Some (x e))"

definition last_n :: "nat \<Rightarrow> 'a list \<Rightarrow> 'a list" where
  "last_n n xs = drop (length xs - n) xs"

definition run_train_step ::
  "base_ops \<Rightarrow> model \<Rightarrow> objective \<Rightarrow> env \<Rightarrow> error + ((string \<times> real option) list \<times> env)" where
  "run_train_step ops self obj feed_dict =
     (let to_run_names0 = [];
          to_run0 = [(\<lambda>e. None), ema_op ops, y_sd_delta_ema_op ops];
          to_run1 = (if n_layers_rnn self \<noteq> 0
                     then to_run0 @ rnn_h_ema_ops ops @ rnn_c_ema_ops ops else to_run0);
          to_run2 = (if asymmetric_error self
                     then to_run1 @ [y_skewness_delta_ema_op ops, y_tailweight_delta_ema_op ops]
                     else to_run1)
      in
      case
        (if truthy (loss_filter_n_sds self) then
           (case loss_ema_op obj of
              None \<Rightarrow> Inl (AttributeError ''loss_ema_op'')
            | Some lop \<Rightarrow>
               (case loss_sd_ema_op obj of
                  None \<Rightarrow> Inl (AttributeError ''loss_sd_ema_op'')
                | Some sop \<Rightarrow>
                   (case n_dropped obj of
                      None \<Rightarrow> Inl (AttributeError ''n_dropped'')
                    | Some nd \<Rightarrow>
                        Inr (to_run_names0 @ [''n_dropped''],
                             to_run2 @ [fetch lop, fetch sop, fetch nd],
                             feed_dict\<lparr>loss_ema := lop feed_dict,
                                       loss_sd_ema := sop feed_dict\<rparr>))))
         else Inr (to_run_names0, to_run2, feed_dict))
      of
        Inl ex \<Rightarrow> Inl ex
      | Inr (to_run_names1, to_run3, env1) \<Rightarrow>
     (let to_run_names2 = to_run_names1 @ [''loss'', ''reg_loss''];
          to_run4 = to_run3 @ [fetch (loss_func obj), fetch (reg_loss obj)];
          outs = map (\<lambda>f. f feed_dict) to_run4;
          out_dict = zip to_run_names2 (last_n (length to_run_names2) outs)
      in Inr (out_dict,
              env1\<lparr>global_batch_step := global_batch_step feed_dict + 1\<rparr>)))"

text \<open>
  \<open>run_predict_op\<close> evaluates \<open>self.out\<close>, the node the output model has rebound, and then
  applies its own transformation.
\<close>

definition run_predict_op :: "model \<Rightarrow> objective \<Rightarrow> env \<Rightarrow> bool \<Rightarrow> tensor" where
  "run_predict_op self obj feed_dict standardize_response' =
     (let preds = out (obj_om obj) feed_dict
      in if standardize_response self \<and> \<not> standardize_response'
         then t_map (\<lambda>v. v * y_train_sd self + y_train_mean self) preds
         else preds)"

subsection \<open>Vocabulary of the properties\<close>

text \<open>
  The tensors a latent parameter consists of, and the property that all of them have a
  given leading dimension.
\<close>

definition latent_tensors :: "latent \<Rightarrow> env \<Rightarrow> tensor list" where
  "latent_tensors lp e =
     [q_loc lp e, q_scale lp e, loc (q_dist lp) e, scale (q_dist lp) e, lp_value lp e,
      lp_summary lp e]"

definition has_leading_dim :: "int \<Rightarrow> latent \<Rightarrow> env \<Rightarrow> bool" where
  "has_leading_dim n lp e =
     (0 \<le> n \<and> list_all (\<lambda>t. take 1 (dims t) = [nat n]) (latent_tensors lp e))"

text \<open>
  How every builder connects the nodes of a parameter: the posterior is built on the two
  variables, the value is selected by the shared flag, the summary is the posterior mean.
\<close>

definition posterior_wired :: "model \<Rightarrow> latent \<Rightarrow> bool" where
  "posterior_wired self lp \<longleftrightarrow>
     q_dist lp = Normal (q_loc lp) (constrain self (q_scale lp))
   \<and> lp_value lp = tf_cond use_MAP_mode (mean (q_dist lp)) (sample (q_dist lp))
   \<and> lp_summary lp = mean (q_dist lp)"

text \<open>
  The summary of a parameter is its posterior mean, and the same under both settings of
  the shared flag.
\<close>

definition summary_is_posterior_mean :: "latent \<Rightarrow> env \<Rightarrow> bool" where
  "summary_is_posterior_mean lp e \<longleftrightarrow>
     lp_summary lp e = mean (q_dist lp) e
   \<and> lp_summary lp (e\<lparr>use_MAP_mode := True\<rparr>) = lp_summary lp (e\<lparr>use_MAP_mode := False\<rparr>)"

text \<open>
  Two models that differ at most in \<open>kl_penalties\<close>, two models that differ at most in the
  regularizer lists, and the invariant of the base class that the list of regularizer
  losses and the list of their names grow together.
\<close>

definition same_but_kl :: "model \<Rightarrow> model \<Rightarrow> bool" where
  "same_but_kl a b \<longleftrightarrow> a\<lparr>kl_penalties := []\<rparr> = b\<lparr>kl_penalties := []\<rparr>"

definition same_but_reg :: "model \<Rightarrow> model \<Rightarrow> bool" where
  "same_but_reg a b \<longleftrightarrow>
     a\<lparr>regularizer_losses := [], regularizer_losses_varnames := []\<rparr>
       = b\<lparr>regularizer_losses := [], regularizer_losses_varnames := []\<rparr>"

definition reg_parallel :: "model \<Rightarrow> bool" where
  "reg_parallel self \<longleftrightarrow>
     length (regularizer_losses_varnames self) = length (regularizer_losses self)"

text \<open>
  The threshold of the loss filter, and the examples of a batch of losses that it retains
  and drops.
\<close>

definition loss_cutoff :: "real \<Rightarrow> env \<Rightarrow> real" where
  "loss_cutoff n_sds e = loss_ema e + n_sds * loss_sd_ema e"

definition retained :: "real \<Rightarrow> env \<Rightarrow> real list \<Rightarrow> real list" where
  "retained n_sds e lf = filter (\<lambda>x. x < loss_cutoff n_sds e) lf"

definition dropped :: "real \<Rightarrow> env \<Rightarrow> real list \<Rightarrow> real list" where
  "dropped n_sds e lf = filter (\<lambda>x. \<not> x < loss_cutoff n_sds e) lf"

subsection \<open>A concrete configuration\<close>

text \<open>
  A small model on which the definitions are evaluated: the \<open>abs\<close> constraint with the
  identity as its inverse, one grouping factor with three levels, one impulse, standardized
  response with training mean 10 and standard deviation 2, and a backbone that outputs
  \<open>[1, -1]\<close> on the batch.
\<close>

definition demo_lib :: sas_lib where
  "demo_lib = \<lparr>sas_mean = sas_loc, sas_sample = sas_loc,
                sas_log_prob = (\<lambda>d ys e. map (\<lambda>y. 0) ys)\<rparr>"

definition demo_self :: model where
  "demo_self = \<lparr>
     standardize_response = True,
     intercept_init = None,
     intercept_prior_sd = None,
     y_sd_prior_sd = None,
     prior_sd_scaling_coefficient = 1,
     y_sd_prior_sd_scaling_coefficient = 1,
     posterior_to_prior_sd_ratio = 1/100,
     ranef_to_fixef_prior_sd_ratio = 1/10,
     y_skewness_prior_sd = 1,
     y_tailweight_prior_sd = 1,
     y_tailweight_prior_loc = 1,
     weight_prior_sd = SdNum 1,
     bias_prior_sd = SdNum 2,
     declare_priors_fixef = True,
     declare_priors_ranef = True,
     asymmetric_error = False,
     y_sd_trainable = False,
     loss_filter_n_sds = None,
     ema_decay = None,
     scale_loss_with_data = False,
     optim_name = Some ''Adam'',
     n_units_rnn = [2],
     n_units_hidden_state = 2,
     n_units_t_delta_embedding = 2,
     n_layers_rnn = 1,
     y_train_mean = 10,
     y_train_sd = 2,
     constraint_fn = abs,
     constraint_fn_inv = (\<lambda>x. x),
     epsilon = 1/100000000,
     rangf = [''subject''],
     rangf_n_levels = [3],
     impulse_names = [''rate''],
     intercept_init_tf = 0,
     y_sd_init_unconstrained = 1,
     y_sd_init_tf = 1,
     net_out = tf_constant \<lparr>dims = [2], vals = [1, -1]\<rparr>,
     y_sd_delta = tf_constant (scalar 0),
     y_skewness_delta = tf_constant (scalar 0),
     y_tailweight_delta = tf_constant (scalar 0),
     minibatch_scale = tf_constant 1,
     regularizable_layers = [],
     regularizer_losses = [],
     regularizer_losses_varnames = [],
     nn_regularizer = None,
     reg_name = (\<lambda>n. n),
     kl_penalties = [],
     intercept_prior_sd_tf = 0,
     intercept_posterior_sd_init = 0,
     intercept_ranef_prior_sd_tf = 0,
     intercept_ranef_posterior_sd_init = 0,
     y_sd_prior_sd_tf = 0,
     y_sd_posterior_sd_init = 0,
     y_skewness_prior_sd_tf = 0,
     y_skewness_posterior_sd_init = 0,
     y_tailweight_prior_loc_tf = 0,
     y_tailweight_posterior_loc_init = 0,
     y_tailweight_prior_sd_tf = 0,
     y_tailweight_posterior_sd_init = 0\<rparr>"

definition demo_env :: env where
  "demo_env = \<lparr>
     use_MAP_mode = True,
     noise = (\<lambda>i. 0),
     feed_y = [12, 8],
     loss_ema = 0,
     loss_sd_ema = 0,
     global_batch_step = 0,
     y_sd_delta_ema = scalar 0,
     y_skewness_delta_ema = scalar 0,
     y_tailweight_delta_ema = scalar 0\<rparr>"

text \<open>Base-class operations for \<open>run_train_step\<close> that fetch no value.\<close>

definition demo_ops :: base_ops where
  "demo_ops = \<lparr>ema_op = (\<lambda>e. None), y_sd_delta_ema_op = (\<lambda>e. None),
                rnn_h_ema_ops = [(\<lambda>e. None)], rnn_c_ema_ops = [(\<lambda>e. None)],
                y_skewness_delta_ema_op = (\<lambda>e. None),
                y_tailweight_delta_ema_op = (\<lambda>e. None)\<rparr>"

text \<open>
  The same model with the asymmetric error distribution, a trainable \<open>y_sd\<close> and a raw
  response, and an environment in which training has moved one running average.
\<close>

definition demo_asymmetric :: model where
  "demo_asymmetric =
     demo_self\<lparr>asymmetric_error := True, standardize_response := False, y_sd_trainable := True\<rparr>"

definition demo_trained_env :: env where
  "demo_trained_env = demo_env\<lparr>y_skewness_delta_ema := scalar 1\<rparr>"

text \<open>
  The same model with a raw response and the loss filter configured, and an environment
  past the warm-up in which the second example of the batch lies far from the prediction.
\<close>

definition demo_filtering :: model where
  "demo_filtering =
     demo_self\<lparr>standardize_response := False, loss_filter_n_sds := Some 2,
                ema_decay := Some (1/2)\<rparr>"

definition demo_step_env :: env where
  "demo_step_env =
     demo_env\<lparr>feed_y := [1, 9], loss_ema := 10, loss_sd_ema := 0, global_batch_step := 5\<rparr>"

text \<open>
  The same model with one regularizer loss already registered by the base class when the
  objective is assembled.
\<close>

definition demo_preregistered :: model where
  "demo_preregistered =
     demo_self\<lparr>regularizer_losses := [tf_constant 5],
                regularizer_losses_varnames := [''coefficient'']\<rparr>"

section \<open>Properties\<close>

subsection \<open>Index lookup and shapes\<close>

lemma list_index_notin: "x \<notin> set xs \<Longrightarrow> list_index xs x = Inl ValueError"
  by (induction xs) auto

lemma list_index_bound: "list_index xs x = Inr i \<Longrightarrow> i < length xs \<and> xs ! i = x"
  by (induction xs arbitrary: i) (auto split: if_splits sum.splits)

lemma leading_dim_unknown:
  "gf \<notin> set (rangf self) \<Longrightarrow> leading_dim self gf = Inl ValueError"
  by (simp add: leading_dim_def rangf_n_levels_minus_one_def list_index_notin)

text \<open>
  Claim C9. A random-effect call of any builder for a grouping factor that is not in
  \<open>self.rangf\<close> raises at construction time: the lookup \<open>self.rangf.index(ran_gf)\<close> fails
  with \<open>ValueError\<close>, and every builder returns an error, which is that \<open>ValueError\<close>
  unless an earlier statement of the builder (reading the number of units, resolving the
  prior scale) has already raised. No builder returns a parameter.
\<close>

theorem unknown_grouping_factor_rejected:
  assumes "gf \<notin> set (rangf self)"
  shows "rangf_n_levels_minus_one self gf = Inl ValueError
    \<and> initialize_intercept self (Some gf) = Inl ValueError
    \<and> initialize_coefficient self (Some gf) =
        (case resolve_sd_prior (weight_prior_sd self) (length (impulse_names self) + 1) of
           Inl ex \<Rightarrow> Inl ex | Inr v \<Rightarrow> Inl ValueError)
    \<and> initialize_rnn_h self l (Some gf) =
        (case n_units_rnn_at self l of Inl ex \<Rightarrow> Inl ex | Inr units \<Rightarrow>
           (case resolve_sd_prior (bias_prior_sd self) units of
              Inl ex \<Rightarrow> Inl ex | Inr v \<Rightarrow> Inl ValueError))
    \<and> initialize_rnn_c self l (Some gf) =
        (case n_units_rnn_at self l of Inl ex \<Rightarrow> Inl ex | Inr units \<Rightarrow>
           (case resolve_sd_prior (bias_prior_sd self) units of
              Inl ex \<Rightarrow> Inl ex | Inr v \<Rightarrow> Inl ValueError))
    \<and> initialize_h_bias self (Some gf) =
        (case resolve_sd_prior (bias_prior_sd self) (n_units_hidden_state self) of
           Inl ex \<Rightarrow> Inl ex | Inr v \<Rightarrow> Inl ValueError)
    \<and> initialize_irf_l1_biases self (Some gf) =
        (case resolve_sd_prior (weight_prior_sd self) (n_units_t_delta_embedding self) of
           Inl ex \<Rightarrow> Inl ex | Inr v \<Rightarrow> Inl ValueError)"
  using leading_dim_unknown[OF assms]
  by (auto simp: rangf_n_levels_minus_one_def list_index_notin[OF assms]
      initialize_intercept_def initialize_coefficient_def initialize_rnn_h_def
      initialize_rnn_c_def initialize_h_bias_def initialize_irf_l1_biases_def
      initialize_irf_l1_W_bias_def Let_def split: sum.splits)


lemma leading_dim_levels:
  assumes "list_index (rangf self) gf = Inr i" "i < length (rangf_n_levels self)"
    "rangf_n_levels self ! i = levels" "leading_dim self gf = Inr n"
  shows "0 \<le> levels - 1 \<and> n = nat (levels - 1)"
  using assms by (auto simp: leading_dim_def rangf_n_levels_minus_one_def split: if_splits)

lemma dims_simps [simp]:
  "dims (tf_zeros sh) = sh" "dims (tf_ones sh) = sh" "dims (t_map f t) = dims t"
  "dims (times_scalar t c) = dims t" "dims (scalar c) = []"
  by (simp_all add: tf_zeros_def tf_ones_def t_map_def times_scalar_def scalar_def)

lemma dims_sample:
  "dims (loc d e) \<noteq> [] \<Longrightarrow> dims (sample d e) = dims (loc d e)"
  by (simp add: sample_def bcast2_def Let_def)


lemma wired_leading_dim:
  assumes "posterior_wired m lp" "take 1 (dims (q_loc lp e)) = [n]"
    "take 1 (dims (q_scale lp e)) = [n]"
  shows "list_all (\<lambda>t. take 1 (dims t) = [n]) (latent_tensors lp e)"
proof -
  have ne: "dims (q_loc lp e) \<noteq> []" using assms(2) by auto
  show ?thesis
    using assms ne
    by (simp add: posterior_wired_def latent_tensors_def Normal_def constrain_def n_map_def
        tf_cond_def mean_def dims_sample)
qed

lemma levels_leading_dim:
  assumes "list_index (rangf self) gf = Inr i" "i < length (rangf_n_levels self)"
    "rangf_n_levels self ! i = levels"
    "posterior_wired m lp"
    "leading_dim self gf = Inr n \<and> take 1 (dims (q_loc lp e)) = [n]
       \<and> take 1 (dims (q_scale lp e)) = [n]"
  shows "has_leading_dim (levels - 1) lp e"
proof -
  have "0 \<le> levels - 1 \<and> n = nat (levels - 1)"
    using assms(1,2,3,5)
    by (auto simp: leading_dim_def rangf_n_levels_minus_one_def split: if_splits)
  with wired_leading_dim[OF assms(4), of e n] assms(5) show ?thesis
    by (simp add: has_leading_dim_def)
qed

lemma initialize_intercept_wired:
  "initialize_intercept self ran_gf = Inr (lp, s) \<Longrightarrow> posterior_wired self lp"
  by (auto simp: initialize_intercept_def posterior_wired_def Let_def
      split: sum.splits option.splits)

lemma initialize_intercept_ranef_dims:
  "initialize_intercept self (Some gf) = Inr (lp, s) \<Longrightarrow>
     \<exists>n. leading_dim self gf = Inr n \<and> take 1 (dims (q_loc lp e)) = [n]
       \<and> take 1 (dims (q_scale lp e)) = [n]"
  by (auto simp: initialize_intercept_def Let_def tf_Variable_def split: sum.splits)

lemma initialize_intercept_keeps:
  "initialize_intercept self ran_gf = Inr (lp, s) \<Longrightarrow>
     s = self\<lparr>kl_penalties := kl_penalties s\<rparr>"
  by (auto simp: initialize_intercept_def Let_def append_kl_def
      split: sum.splits option.splits if_splits)

lemma initialize_coefficient_wired:
  "initialize_coefficient self ran_gf = Inr (lp, s) \<Longrightarrow> posterior_wired self lp"
  by (auto simp: initialize_coefficient_def posterior_wired_def Let_def
      split: sum.splits option.splits)

lemma initialize_coefficient_ranef_dims:
  "initialize_coefficient self (Some gf) = Inr (lp, s) \<Longrightarrow>
     \<exists>n. leading_dim self gf = Inr n \<and> take 1 (dims (q_loc lp e)) = [n]
       \<and> take 1 (dims (q_scale lp e)) = [n]"
  by (auto simp: initialize_coefficient_def Let_def tf_Variable_def split: sum.splits)

lemma initialize_coefficient_keeps:
  "initialize_coefficient self ran_gf = Inr (lp, s) \<Longrightarrow>
     s = self\<lparr>kl_penalties := kl_penalties s\<rparr>"
  by (auto simp: initialize_coefficient_def Let_def append_kl_def
      split: sum.splits option.splits if_splits)

lemma initialize_rnn_h_wired:
  "initialize_rnn_h self l ran_gf = Inr (lp, s) \<Longrightarrow> posterior_wired self lp"
  by (auto simp: initialize_rnn_h_def posterior_wired_def Let_def
      split: sum.splits option.splits)

lemma initialize_rnn_h_ranef_dims:
  "initialize_rnn_h self l (Some gf) = Inr (lp, s) \<Longrightarrow>
     \<exists>n. leading_dim self gf = Inr n \<and> take 1 (dims (q_loc lp e)) = [n]
       \<and> take 1 (dims (q_scale lp e)) = [n]"
  by (auto simp: initialize_rnn_h_def Let_def tf_Variable_def split: sum.splits)

lemma initialize_rnn_h_keeps:
  "initialize_rnn_h self l ran_gf = Inr (lp, s) \<Longrightarrow>
     s = self\<lparr>kl_penalties := kl_penalties s\<rparr>"
  by (auto simp: initialize_rnn_h_def Let_def append_kl_def
      split: sum.splits option.splits if_splits)

lemma initialize_rnn_c_wired:
  "initialize_rnn_c self l ran_gf = Inr (lp, s) \<Longrightarrow> posterior_wired self lp"
  by (auto simp: initialize_rnn_c_def posterior_wired_def Let_def
      split: sum.splits option.splits)

lemma initialize_rnn_c_ranef_dims:
  "initialize_rnn_c self l (Some gf) = Inr (lp, s) \<Longrightarrow>
     \<exists>n. leading_dim self gf = Inr n \<and> take 1 (dims (q_loc lp e)) = [n]
       \<and> take 1 (dims (q_scale lp e)) = [n]"
  by (auto simp: initialize_rnn_c_def Let_def tf_Variable_def split: sum.splits)

lemma initialize_rnn_c_keeps:
  "initialize_rnn_c self l ran_gf = Inr (lp, s) \<Longrightarrow>
     s = self\<lparr>kl_penalties := kl_penalties s\<rparr>"
  by (auto simp: initialize_rnn_c_def Let_def append_kl_def
      split: sum.splits option.splits if_splits)

lemma initialize_h_bias_wired:
  "initialize_h_bias self ran_gf = Inr (lp, s) \<Longrightarrow> posterior_wired self lp"
  by (auto simp: initialize_h_bias_def posterior_wired_def Let_def
      split: sum.splits option.splits)

lemma initialize_h_bias_ranef_dims:
  "initialize_h_bias self (Some gf) = Inr (lp, s) \<Longrightarrow>
     \<exists>n. leading_dim self gf = Inr n \<and> take 1 (dims (q_loc lp e)) = [n]
       \<and> take 1 (dims (q_scale lp e)) = [n]"
  by (auto simp: initialize_h_bias_def Let_def tf_Variable_def split: sum.splits)

lemma initialize_h_bias_keeps:
  "initialize_h_bias self ran_gf = Inr (lp, s) \<Longrightarrow>
     s = self\<lparr>kl_penalties := kl_penalties s\<rparr>"
  by (auto simp: initialize_h_bias_def Let_def append_kl_def
      split: sum.splits option.splits if_splits)

lemma initialize_irf_l1_W_bias_wired:
  "initialize_irf_l1_W_bias self ran_gf = Inr (lp, s) \<Longrightarrow> posterior_wired self lp"
  by (auto simp: initialize_irf_l1_W_bias_def posterior_wired_def Let_def
      split: sum.splits option.splits)

lemma initialize_irf_l1_W_bias_ranef_dims:
  "initialize_irf_l1_W_bias self (Some gf) = Inr (lp, s) \<Longrightarrow>
     \<exists>n. leading_dim self gf = Inr n \<and> take 1 (dims (q_loc lp e)) = [n]
       \<and> take 1 (dims (q_scale lp e)) = [n]"
  by (auto simp: initialize_irf_l1_W_bias_def Let_def tf_Variable_def split: sum.splits)

lemma initialize_irf_l1_W_bias_keeps:
  "initialize_irf_l1_W_bias self ran_gf = Inr (lp, s) \<Longrightarrow>
     s = self\<lparr>kl_penalties := kl_penalties s\<rparr>"
  by (auto simp: initialize_irf_l1_W_bias_def Let_def append_kl_def
      split: sum.splits option.splits if_splits)

lemma initialize_irf_l1_b_bias_wired:
  "initialize_irf_l1_b_bias self ran_gf = Inr (lp, s) \<Longrightarrow> posterior_wired self lp"
  by (auto simp: initialize_irf_l1_b_bias_def posterior_wired_def Let_def
      split: sum.splits option.splits)

lemma initialize_irf_l1_b_bias_ranef_dims:
  "initialize_irf_l1_b_bias self (Some gf) = Inr (lp, s) \<Longrightarrow>
     \<exists>n. leading_dim self gf = Inr n \<and> take 1 (dims (q_loc lp e)) = [n]
       \<and> take 1 (dims (q_scale lp e)) = [n]"
  by (auto simp: initialize_irf_l1_b_bias_def Let_def tf_Variable_def split: sum.splits)

lemma initialize_irf_l1_b_bias_keeps:
  "initialize_irf_l1_b_bias self ran_gf = Inr (lp, s) \<Longrightarrow>
     s = self\<lparr>kl_penalties := kl_penalties s\<rparr>"
  by (auto simp: initialize_irf_l1_b_bias_def Let_def append_kl_def
      split: sum.splits option.splits if_splits)

text \<open>
  Claim C6. In a random-effect call for a grouping factor with \<open>levels\<close> observed levels,
  every builder that returns constructs posterior location and scale variables, a
  posterior, a value and a summary whose leading dimension is \<open>levels - 1\<close>.
\<close>

theorem ranef_leading_dimension:
  assumes "list_index (rangf self) gf = Inr i" "i < length (rangf_n_levels self)"
    "rangf_n_levels self ! i = levels"
  shows "(initialize_intercept self (Some gf) = Inr (lp, s) \<longrightarrow> has_leading_dim (levels - 1) lp e)
    \<and> (initialize_coefficient self (Some gf) = Inr (lp, s) \<longrightarrow> has_leading_dim (levels - 1) lp e)
    \<and> (initialize_rnn_h self l (Some gf) = Inr (lp, s) \<longrightarrow> has_leading_dim (levels - 1) lp e)
    \<and> (initialize_rnn_c self l (Some gf) = Inr (lp, s) \<longrightarrow> has_leading_dim (levels - 1) lp e)
    \<and> (initialize_h_bias self (Some gf) = Inr (lp, s) \<longrightarrow> has_leading_dim (levels - 1) lp e)
    \<and> (initialize_irf_l1_biases self (Some gf) = Inr (lp, lp', s) \<longrightarrow>
          has_leading_dim (levels - 1) lp e \<and> has_leading_dim (levels - 1) lp' e)"
proof -
  note L = levels_leading_dim[OF assms]
  have 1: "has_leading_dim (levels - 1) lp e" if r: "initialize_intercept self (Some gf) = Inr (lp, s)"
    using L[OF initialize_intercept_wired[OF r]] initialize_intercept_ranef_dims[OF r, of e] by blast
  have 2: "has_leading_dim (levels - 1) lp e" if r: "initialize_coefficient self (Some gf) = Inr (lp, s)"
    using L[OF initialize_coefficient_wired[OF r]] initialize_coefficient_ranef_dims[OF r, of e] by blast
  have 3: "has_leading_dim (levels - 1) lp e" if r: "initialize_rnn_h self l (Some gf) = Inr (lp, s)"
    using L[OF initialize_rnn_h_wired[OF r]] initialize_rnn_h_ranef_dims[OF r, of e] by blast
  have 4: "has_leading_dim (levels - 1) lp e" if r: "initialize_rnn_c self l (Some gf) = Inr (lp, s)"
    using L[OF initialize_rnn_c_wired[OF r]] initialize_rnn_c_ranef_dims[OF r, of e] by blast
  have 5: "has_leading_dim (levels - 1) lp e" if r: "initialize_h_bias self (Some gf) = Inr (lp, s)"
    using L[OF initialize_h_bias_wired[OF r]] initialize_h_bias_ranef_dims[OF r, of e] by blast
  have 6: "has_leading_dim (levels - 1) lp e \<and> has_leading_dim (levels - 1) lp' e"
    if r: "initialize_irf_l1_biases self (Some gf) = Inr (lp, lp', s)"
  proof -
    from r obtain m where W: "initialize_irf_l1_W_bias self (Some gf) = Inr (lp, m)"
      and B: "initialize_irf_l1_b_bias m (Some gf) = Inr (lp', s)"
      by (auto simp: initialize_irf_l1_biases_def split: sum.splits)
    have "rangf m = rangf self \<and> rangf_n_levels m = rangf_n_levels self"
      using arg_cong[OF initialize_irf_l1_W_bias_keeps[OF W], of rangf]
        arg_cong[OF initialize_irf_l1_W_bias_keeps[OF W], of rangf_n_levels] by simp
    then have same: "leading_dim m gf = leading_dim self gf"
      by (simp add: leading_dim_def rangf_n_levels_minus_one_def cong: sum.case_cong if_cong)
    have a: "has_leading_dim (levels - 1) lp e"
      using L[OF initialize_irf_l1_W_bias_wired[OF W]] initialize_irf_l1_W_bias_ranef_dims[OF W, of e]
      by blast
    have b: "has_leading_dim (levels - 1) lp' e"
      using L[OF initialize_irf_l1_b_bias_wired[OF B]] initialize_irf_l1_b_bias_ranef_dims[OF B, of e]
      unfolding same by blast
    from a b show ?thesis ..
  qed
  from 1 2 3 4 5 6 show ?thesis by blast
qed


theorem unknown_grouping_factor_rejected_witness:
  "''item'' \<notin> set (rangf demo_self)
   \<and> rangf_n_levels_minus_one demo_self ''item'' = Inl ValueError
   \<and> initialize_intercept demo_self (Some ''item'') = Inl ValueError
   \<and> initialize_coefficient demo_self (Some ''item'') = Inl ValueError
   \<and> initialize_rnn_h demo_self 0 (Some ''item'') = Inl ValueError
   \<and> initialize_rnn_c demo_self 0 (Some ''item'') = Inl ValueError
   \<and> initialize_h_bias demo_self (Some ''item'') = Inl ValueError
   \<and> initialize_irf_l1_biases demo_self (Some ''item'') = Inl ValueError"
proof -
  have h: "''item'' \<notin> set (rangf demo_self)" by (simp add: demo_self_def)
  show ?thesis
    using h unknown_grouping_factor_rejected[OF h, of 0]
    by (simp add: demo_self_def resolve_sd_prior_def n_units_rnn_at_def)
qed

theorem ranef_leading_dimension_witness:
  "list_index (rangf demo_self) ''subject'' = Inr 0
   \<and> 0 < length (rangf_n_levels demo_self)
   \<and> rangf_n_levels demo_self ! 0 = 3
   \<and> (case initialize_intercept demo_self (Some ''subject'') of
         Inl ex \<Rightarrow> False | Inr (lp, s) \<Rightarrow> has_leading_dim (3 - 1) lp demo_env)
   \<and> (case initialize_coefficient demo_self (Some ''subject'') of
         Inl ex \<Rightarrow> False | Inr (lp, s) \<Rightarrow> has_leading_dim (3 - 1) lp demo_env)
   \<and> (case initialize_rnn_h demo_self 0 (Some ''subject'') of
         Inl ex \<Rightarrow> False | Inr (lp, s) \<Rightarrow> has_leading_dim (3 - 1) lp demo_env)
   \<and> (case initialize_rnn_c demo_self 0 (Some ''subject'') of
         Inl ex \<Rightarrow> False | Inr (lp, s) \<Rightarrow> has_leading_dim (3 - 1) lp demo_env)
   \<and> (case initialize_h_bias demo_self (Some ''subject'') of
         Inl ex \<Rightarrow> False | Inr (lp, s) \<Rightarrow> has_leading_dim (3 - 1) lp demo_env)
   \<and> (case initialize_irf_l1_biases demo_self (Some ''subject'') of
         Inl ex \<Rightarrow> False
       | Inr (lp, lp', s) \<Rightarrow>
           has_leading_dim (3 - 1) lp demo_env \<and> has_leading_dim (3 - 1) lp' demo_env)"
proof -
  have a: "list_index (rangf demo_self) ''subject'' = Inr 0" by (simp add: demo_self_def)
  have b: "0 < length (rangf_n_levels demo_self)" by (simp add: demo_self_def)
  have c: "rangf_n_levels demo_self ! 0 = 3" by (simp add: demo_self_def)
  note ev = resolve_sd_prior_def leading_dim_def rangf_n_levels_minus_one_def n_units_rnn_at_def
    demo_self_def Let_def
  obtain p1 s1 where r1: "initialize_intercept demo_self (Some ''subject'') = Inr (p1, s1)"
    by (simp add: initialize_intercept_def ev)
  obtain p2 s2 where r2: "initialize_coefficient demo_self (Some ''subject'') = Inr (p2, s2)"
    by (simp add: initialize_coefficient_def ev)
  obtain p3 s3 where r3: "initialize_rnn_h demo_self 0 (Some ''subject'') = Inr (p3, s3)"
    by (simp add: initialize_rnn_h_def ev)
  obtain p4 s4 where r4: "initialize_rnn_c demo_self 0 (Some ''subject'') = Inr (p4, s4)"
    by (simp add: initialize_rnn_c_def ev)
  obtain p5 s5 where r5: "initialize_h_bias demo_self (Some ''subject'') = Inr (p5, s5)"
    by (simp add: initialize_h_bias_def ev)
  obtain p6 p7 s6 where
    r6: "initialize_irf_l1_biases demo_self (Some ''subject'') = Inr (p6, p7, s6)"
    by (simp add: initialize_irf_l1_biases_def initialize_irf_l1_W_bias_def
        initialize_irf_l1_b_bias_def append_kl_def ev)
  have t1: "has_leading_dim (3 - 1) p1 demo_env"
    using ranef_leading_dimension[OF a b c, of p1 s1 demo_env] r1 by blast
  have t2: "has_leading_dim (3 - 1) p2 demo_env"
    using ranef_leading_dimension[OF a b c, of p2 s2 demo_env] r2 by blast
  have t3: "has_leading_dim (3 - 1) p3 demo_env"
    using ranef_leading_dimension[OF a b c, of p3 s3 demo_env 0] r3 by blast
  have t4: "has_leading_dim (3 - 1) p4 demo_env"
    using ranef_leading_dimension[OF a b c, of p4 s4 demo_env 0] r4 by blast
  have t5: "has_leading_dim (3 - 1) p5 demo_env"
    using ranef_leading_dimension[OF a b c, of p5 s5 demo_env] r5 by blast
  have t6: "has_leading_dim (3 - 1) p6 demo_env \<and> has_leading_dim (3 - 1) p7 demo_env"
    using ranef_leading_dimension[OF a b c, of p6 s6 demo_env _ p7] r6 by blast
  show ?thesis
    using a b c r1 r2 r3 r4 r5 r6 t1 t2 t3 t4 t5 t6 by simp
qed


subsection \<open>What the methods leave unchanged\<close>

lemma same_but_kl_refl [simp]: "same_but_kl a a" by (simp add: same_but_kl_def)

lemma same_but_kl_append_kl [simp]: "same_but_kl a (append_kl b d q p) = same_but_kl a b"
  by (simp add: same_but_kl_def append_kl_def)

lemma initialize_y_sd_keeps:
  "initialize_y_sd self = (r, s) \<Longrightarrow> same_but_kl self s"
  by (auto simp: initialize_y_sd_def Let_def split: if_splits)

lemma initialize_output_model_keeps:
  "initialize_output_model lib self = Inr (om', s) \<Longrightarrow> same_but_kl self s"
  apply (cases "initialize_y_sd self")
  apply (frule initialize_y_sd_keeps)
  apply (auto simp: initialize_output_model_def Let_def split: if_splits option.splits prod.splits)
  done


lemma same_but_kl_fields:
  assumes "same_but_kl a b"
  shows "optim_name b = optim_name a"
    "regularizable_layers b = regularizable_layers a"
    "regularizer_losses b = regularizer_losses a"
    "regularizer_losses_varnames b = regularizer_losses_varnames a"
    "nn_regularizer b = nn_regularizer a"
    "reg_name b = reg_name a"
    "scale_loss_with_data b = scale_loss_with_data a"
    "minibatch_scale b = minibatch_scale a"
    "loss_filter_n_sds b = loss_filter_n_sds a"
    "ema_decay b = ema_decay a"
    "epsilon b = epsilon a"
    "standardize_response b = standardize_response a"
    "asymmetric_error b = asymmetric_error a"
    "n_layers_rnn b = n_layers_rnn a"
    "y_train_mean b = y_train_mean a"
    "y_train_sd b = y_train_sd a"
proof -
  have e: "a\<lparr>kl_penalties := []\<rparr> = b\<lparr>kl_penalties := []\<rparr>"
    using assms by (simp add: same_but_kl_def)
  show "optim_name b = optim_name a" using arg_cong[OF e, of optim_name] by simp
  show "regularizable_layers b = regularizable_layers a" using arg_cong[OF e, of regularizable_layers] by simp
  show "regularizer_losses b = regularizer_losses a" using arg_cong[OF e, of regularizer_losses] by simp
  show "regularizer_losses_varnames b = regularizer_losses_varnames a" using arg_cong[OF e, of regularizer_losses_varnames] by simp
  show "nn_regularizer b = nn_regularizer a" using arg_cong[OF e, of nn_regularizer] by simp
  show "reg_name b = reg_name a" using arg_cong[OF e, of reg_name] by simp
  show "scale_loss_with_data b = scale_loss_with_data a" using arg_cong[OF e, of scale_loss_with_data] by simp
  show "minibatch_scale b = minibatch_scale a" using arg_cong[OF e, of minibatch_scale] by simp
  show "loss_filter_n_sds b = loss_filter_n_sds a" using arg_cong[OF e, of loss_filter_n_sds] by simp
  show "ema_decay b = ema_decay a" using arg_cong[OF e, of ema_decay] by simp
  show "epsilon b = epsilon a" using arg_cong[OF e, of epsilon] by simp
  show "standardize_response b = standardize_response a" using arg_cong[OF e, of standardize_response] by simp
  show "asymmetric_error b = asymmetric_error a" using arg_cong[OF e, of asymmetric_error] by simp
  show "n_layers_rnn b = n_layers_rnn a" using arg_cong[OF e, of n_layers_rnn] by simp
  show "y_train_mean b = y_train_mean a" using arg_cong[OF e, of y_train_mean] by simp
  show "y_train_sd b = y_train_sd a" using arg_cong[OF e, of y_train_sd] by simp
qed

lemma filter_config_same: "same_but_kl a b \<Longrightarrow> filter_config b = filter_config a"
  by (simp add: filter_config_def same_but_kl_fields cong: option.case_cong)

lemma same_but_reg_refl [simp]: "same_but_reg a a" by (simp add: same_but_reg_def)

lemma same_but_reg_regularize [simp]: "same_but_reg a (regularize b v) = same_but_reg a b"
  by (simp add: same_but_reg_def regularize_def split: option.splits)

lemma regularize_vars_keeps: "same_but_reg a (regularize_vars b vs) = same_but_reg a b"
  by (induction vs arbitrary: b) simp_all

lemma regularize_layers_keeps: "same_but_reg a (regularize_layers b ls) = same_but_reg a b"
  by (induction ls arbitrary: b) (simp_all add: regularize_vars_keeps)

lemma same_but_reg_fields:
  assumes "same_but_reg a b"
  shows "optim_name b = optim_name a" "kl_penalties b = kl_penalties a"
proof -
  have e: "a\<lparr>regularizer_losses := [], regularizer_losses_varnames := []\<rparr>
       = b\<lparr>regularizer_losses := [], regularizer_losses_varnames := []\<rparr>"
    using assms by (simp add: same_but_reg_def)
  show "optim_name b = optim_name a" using arg_cong[OF e, of optim_name] by simp
  show "kl_penalties b = kl_penalties a" using arg_cong[OF e, of kl_penalties] by simp
qed

lemma regularize_layers_fields [simp]:
  "optim_name (regularize_layers b ls) = optim_name b"
  "kl_penalties (regularize_layers b ls) = kl_penalties b"
  using same_but_reg_fields[of b "regularize_layers b ls"]
  by (simp_all add: regularize_layers_keeps)

lemma reg_parallel_regularize: "reg_parallel b \<Longrightarrow> reg_parallel (regularize b v)"
  by (simp add: reg_parallel_def regularize_def split: option.splits)

lemma reg_parallel_vars: "reg_parallel b \<Longrightarrow> reg_parallel (regularize_vars b vs)"
  by (induction vs arbitrary: b) (simp_all add: reg_parallel_regularize)

lemma reg_parallel_layers: "reg_parallel b \<Longrightarrow> reg_parallel (regularize_layers b ls)"
  by (induction ls arbitrary: b) (simp_all add: reg_parallel_vars)

lemma reg_parallel_same: "same_but_kl a b \<Longrightarrow> reg_parallel b = reg_parallel a"
  by (simp add: reg_parallel_def same_but_kl_fields)

subsection \<open>The assembled objective\<close>

text \<open>What a successful assembly consists of.\<close>

lemma initialize_objective_InrD:
  assumes "initialize_objective lib self = Inr obj"
  shows "\<exists>om' self1. initialize_output_model lib self = Inr (om', self1)
    \<and> obj_om obj = om'
    \<and> final_self obj = regularize_layers self1 (regularizable_layers self1)
    \<and> ll obj = (\<lambda>e. log_prob lib (out_dist om') (feed_y e) e)
    \<and> (filter_config self1 = None \<longrightarrow> loss_func_per_example obj = (\<lambda>e. map uminus (ll obj e)))
    \<and> reg_loss obj =
         (\<lambda>e. (if regularizer_losses_varnames (final_self obj) \<noteq> []
               then sum_list (map (\<lambda>r. r e) (regularizer_losses (final_self obj))) else 0)
             + (if kl_penalties (final_self obj) \<noteq> [] then kl_loss obj e else 0))
    \<and> kl_loss obj =
         (\<lambda>e. if kl_penalties (final_self obj) \<noteq> []
              then sum_list (map (\<lambda>x. reduce_sum (x e)) (kl_penalties (final_self obj))) else 0)
    \<and> loss_func obj =
         (\<lambda>e. (if scale_loss_with_data self1
               then sum_list (loss_func_per_example obj e) * minibatch_scale self1 e
               else reduce_mean (loss_func_per_example obj e))
             + (if regularizer_losses_varnames (final_self obj) \<noteq> []
               then sum_list (map (\<lambda>r. r e) (regularizer_losses (final_self obj))) else 0)
             + (if kl_penalties (final_self obj) \<noteq> [] then kl_loss obj e else 0))"
  using assms
  by (auto simp: initialize_objective_def Let_def tf_constant_def fun_eq_iff
      split: sum.splits option.splits prod.splits if_splits)


lemma initialize_objective_optim:
  assumes "initialize_objective lib self = Inr obj"
  shows "optim_name self = Some (optim obj)"
proof -
  from assms obtain om' self1 where om: "initialize_output_model lib self = Inr (om', self1)"
    by (auto simp: initialize_objective_def split: sum.splits)
  have k: "same_but_kl self self1" by (rule initialize_output_model_keeps[OF om])
  have r: "same_but_reg self1 (regularize_layers self1 (regularizable_layers self1))"
    by (simp add: regularize_layers_keeps)
  have "optim_name (regularize_layers self1 (regularizable_layers self1)) = Some (optim obj)"
    using assms om
    by (auto simp: initialize_objective_def Let_def
        split: sum.splits option.splits prod.splits if_splits)
  then show ?thesis
    by (simp add: same_but_kl_fields[OF k])
qed

lemma initialize_output_model_not_assertion:
  "initialize_output_model lib self \<noteq> Inl (AssertionError msg)"
  by (auto simp: initialize_output_model_def Let_def split: prod.splits option.splits if_splits)

lemma initialize_objective_not_assertion:
  assumes "optim_name self = Some name"
  shows "initialize_objective lib self \<noteq> Inl (AssertionError msg)"
proof
  assume a: "initialize_objective lib self = Inl (AssertionError msg)"
  show False
  proof (cases "initialize_output_model lib self")
    case (Inl ex)
    with a have "ex = AssertionError msg" by (simp add: initialize_objective_def)
    with Inl initialize_output_model_not_assertion show False by blast
  next
    case (Inr p)
    obtain om' self1 where p: "p = (om', self1)" by (cases p)
    have k: "same_but_kl self self1"
      using initialize_output_model_keeps Inr p by blast
    have r: "same_but_reg self1 (regularize_layers self1 (regularizable_layers self1))"
      by (simp add: regularize_layers_keeps)
    have o: "optim_name (regularize_layers self1 (regularizable_layers self1)) = Some name"
      by (simp add: same_but_kl_fields[OF k] assms)
    from a Inr p o show False
      by (auto simp: initialize_objective_def Let_def
          split: sum.splits option.splits prod.splits if_splits)
  qed
qed

lemma initialize_objective_assertion:
  assumes n: "optim_name self = None"
    and om: "initialize_output_model lib self = Inr (om', self1)"
    and f: "filter_config self = None \<or> (\<exists>n_sds beta. filter_config self = Some (n_sds, beta) \<and> beta \<noteq> 1)"
    and p: "reg_parallel self"
  shows "initialize_objective lib self = Inl (AssertionError ''An optimizer name must be supplied'')"
proof -
  have k: "same_but_kl self self1" by (rule initialize_output_model_keeps[OF om])
  let ?s2 = "regularize_layers self1 (regularizable_layers self1)"
  have r: "same_but_reg self1 ?s2" by (simp add: regularize_layers_keeps)
  have o: "optim_name ?s2 = None"
    by (simp add: same_but_kl_fields[OF k] n)
  have "reg_parallel ?s2"
    using p reg_parallel_same[OF k] reg_parallel_layers by blast
  then have q: "regularizer_losses ?s2 = [] \<Longrightarrow> regularizer_losses_varnames ?s2 = []"
    by (simp add: reg_parallel_def)
  have f1: "filter_config self1 = None \<or> (\<exists>n_sds beta. filter_config self1 = Some (n_sds, beta) \<and> beta \<noteq> 1)"
    using f filter_config_same[OF k] by simp
  from f1 show ?thesis
    using om o q
    by (auto simp: initialize_objective_def Let_def split: sum.splits prod.splits)
qed

text \<open>
  Claim C8. With \<open>optim_name\<close> equal to \<open>None\<close>, \<open>initialize_objective\<close> never returns an
  objective: it raises while the graph is constructed, so that no training step can be
  run on its result. Provided that no earlier statement of the method raises (the output
  model is built, the decay of the loss filter is not 1, the regularizer lists are of
  equal length), the error is the assertion failure \<open>An optimizer name must be supplied\<close>.
  With an optimizer name configured, no assertion failure is raised.
\<close>

theorem missing_optimizer_is_fatal:
  "(optim_name self = None \<longrightarrow> (\<exists>ex. initialize_objective lib self = Inl ex))
   \<and> (optim_name self = None \<and> (\<exists>r. initialize_output_model lib self = Inr r)
        \<and> (filter_config self = None \<or> (\<exists>n_sds beta. filter_config self = Some (n_sds, beta) \<and> beta \<noteq> 1))
        \<and> reg_parallel self
       \<longrightarrow> initialize_objective lib self = Inl (AssertionError ''An optimizer name must be supplied''))
   \<and> (optim_name self \<noteq> None \<longrightarrow>
         (\<forall>msg. initialize_objective lib self \<noteq> Inl (AssertionError msg)))"
proof (intro conjI impI)
  assume n: "optim_name self = None"
  show "\<exists>ex. initialize_objective lib self = Inl ex"
  proof (cases "initialize_objective lib self")
    case (Inr obj)
    from initialize_objective_optim[OF Inr] n show ?thesis by simp
  qed blast
next
  assume a: "optim_name self = None \<and> (\<exists>r. initialize_output_model lib self = Inr r)
        \<and> (filter_config self = None \<or> (\<exists>n_sds beta. filter_config self = Some (n_sds, beta) \<and> beta \<noteq> 1))
        \<and> reg_parallel self"
  then obtain om' self1 where "initialize_output_model lib self = Inr (om', self1)" by auto
  with a show "initialize_objective lib self = Inl (AssertionError ''An optimizer name must be supplied'')"
    using initialize_objective_assertion by blast
next
  assume "optim_name self \<noteq> None"
  then obtain name where "optim_name self = Some name" by auto
  then show "\<forall>msg. initialize_objective lib self \<noteq> Inl (AssertionError msg)"
    using initialize_objective_not_assertion by blast
qed

theorem missing_optimizer_is_fatal_witness:
  "optim_name (demo_self\<lparr>optim_name := None\<rparr>) = None
   \<and> (\<exists>r. initialize_output_model demo_lib (demo_self\<lparr>optim_name := None\<rparr>) = Inr r)
   \<and> filter_config (demo_self\<lparr>optim_name := None\<rparr>) = None
   \<and> reg_parallel (demo_self\<lparr>optim_name := None\<rparr>)
   \<and> initialize_objective demo_lib (demo_self\<lparr>optim_name := None\<rparr>)
        = Inl (AssertionError ''An optimizer name must be supplied'')
   \<and> optim_name demo_self \<noteq> None
   \<and> initialize_objective demo_lib demo_self \<noteq> Inl (AssertionError ''An optimizer name must be supplied'')"
proof -
  let ?m = "demo_self\<lparr>optim_name := None\<rparr>"
  have a: "optim_name ?m = None" by simp
  have b: "\<exists>r. initialize_output_model demo_lib ?m = Inr r"
    by (simp add: initialize_output_model_def initialize_y_sd_def demo_self_def Let_def)
  have c: "filter_config ?m = None" by (simp add: filter_config_def demo_self_def)
  have d: "reg_parallel ?m" by (simp add: reg_parallel_def demo_self_def)
  have e: "optim_name demo_self \<noteq> None" by (simp add: demo_self_def)
  from missing_optimizer_is_fatal[of ?m demo_lib] a b c d
  have 1: "initialize_objective demo_lib ?m = Inl (AssertionError ''An optimizer name must be supplied'')"
    by blast
  from missing_optimizer_is_fatal[of demo_self demo_lib] e
  have 2: "initialize_objective demo_lib demo_self \<noteq> Inl (AssertionError ''An optimizer name must be supplied'')"
    by blast
  from a b c d e 1 2 show ?thesis by blast
qed


subsection \<open>The training step's dictionary\<close>

lemma last_n_rev: "last_n n xs = rev (take n (rev xs))"
  by (simp add: last_n_def rev_take)

lemma run_train_step_dict:
  assumes "run_train_step ops self obj e = Inr (d, e')"
  shows "map_of d ''loss'' = Some (Some (loss_func obj e))
       \<and> map_of d ''reg_loss'' = Some (Some (reg_loss obj e))
       \<and> (truthy (loss_filter_n_sds self) \<longrightarrow>
            (\<exists>nd lop sop. n_dropped obj = Some nd \<and> loss_ema_op obj = Some lop
               \<and> loss_sd_ema_op obj = Some sop
               \<and> map_of d ''n_dropped'' = Some (Some (nd e))
               \<and> loss_ema e' = lop e \<and> loss_sd_ema e' = sop e))
       \<and> global_batch_step e' = global_batch_step e + 1"
proof (cases "truthy (loss_filter_n_sds self)")
  case True
  with assms obtain nd lop sop where o: "n_dropped obj = Some nd" "loss_ema_op obj = Some lop"
      "loss_sd_ema_op obj = Some sop"
    by (auto simp: run_train_step_def Let_def split: option.splits)
  from assms True o show ?thesis
    by (auto simp: run_train_step_def Let_def fetch_def last_n_rev)
next
  case False
  from assms False show ?thesis
    by (auto simp: run_train_step_def Let_def fetch_def last_n_rev)
qed

subsection \<open>The terms of the loss\<close>

lemma objective_output_model:
  assumes "initialize_objective lib self = Inr obj"
  shows "\<exists>self1. initialize_output_model lib self = Inr (obj_om obj, self1)
           \<and> same_but_kl self self1
           \<and> final_self obj = regularize_layers self1 (regularizable_layers self)"
proof -
  from initialize_objective_InrD[OF assms] obtain om' self1 where
    a: "initialize_output_model lib self = Inr (om', self1)" "obj_om obj = om'"
       "final_self obj = regularize_layers self1 (regularizable_layers self1)"
    by auto
  have k: "same_but_kl self self1" by (rule initialize_output_model_keeps[OF a(1)])
  from a k show ?thesis by (auto simp: same_but_kl_fields[OF k])
qed

lemma objective_ll:
  assumes "initialize_objective lib self = Inr obj"
  shows "ll obj e = log_prob lib (out_dist (obj_om obj)) (feed_y e) e"
  using initialize_objective_InrD[OF assms] by auto

lemma objective_unfiltered:
  assumes "initialize_objective lib self = Inr obj" "filter_config self = None"
  shows "loss_func_per_example obj e = map uminus (ll obj e)"
proof -
  from objective_output_model[OF assms(1)] obtain self1 where k: "same_but_kl self self1"
    and om: "initialize_output_model lib self = Inr (obj_om obj, self1)" by blast
  have "filter_config self1 = None" by (simp add: filter_config_same[OF k] assms(2))
  with initialize_objective_InrD[OF assms(1)] om show ?thesis by auto
qed

lemma objective_kl_loss:
  assumes "initialize_objective lib self = Inr obj"
  shows "kl_loss obj e =
     (if kl_penalties (final_self obj) \<noteq> []
      then sum_list (map (\<lambda>x. reduce_sum (x e)) (kl_penalties (final_self obj))) else 0)"
  using initialize_objective_InrD[OF assms] by auto

lemma objective_reg_loss:
  assumes "initialize_objective lib self = Inr obj"
  shows "reg_loss obj e =
     (if regularizer_losses_varnames (final_self obj) \<noteq> []
      then sum_list (map (\<lambda>r. r e) (regularizer_losses (final_self obj))) else 0)
     + (if kl_penalties (final_self obj) \<noteq> [] then kl_loss obj e else 0)"
  using initialize_objective_InrD[OF assms] by auto

lemma objective_loss_func:
  assumes "initialize_objective lib self = Inr obj"
  shows "loss_func obj e =
     (if scale_loss_with_data self
      then sum_list (loss_func_per_example obj e) * minibatch_scale self e
      else sum_list (loss_func_per_example obj e) / real (length (loss_func_per_example obj e)))
     + (if regularizer_losses_varnames (final_self obj) \<noteq> []
        then sum_list (map (\<lambda>r. r e) (regularizer_losses (final_self obj))) else 0)
     + (if kl_penalties (final_self obj) \<noteq> [] then kl_loss obj e else 0)"
proof -
  from objective_output_model[OF assms(1)] obtain self1 where k: "same_but_kl self self1"
    and om: "initialize_output_model lib self = Inr (obj_om obj, self1)" by blast
  from initialize_objective_InrD[OF assms(1)] om show ?thesis
    by (auto simp: same_but_kl_fields[OF k] reduce_mean_def)
qed




subsection \<open>Prior and posterior scales\<close>

text \<open>
  What the builders other than the ones evaluated below do. In both calls of the
  coefficient, RNN bias and hidden-state bias builders the scale variable is filled with
  the inverse constraint of the prior scale times \<open>posterior_to_prior_sd_ratio\<close>, where
  the prior scale of a random-effect call carries the ranef-to-fixef ratio once. In the
  random-effect call of every builder but the one for the hidden-state bias, the prior
  scale is the fixed-effect prior scale times \<open>ranef_to_fixef_prior_sd_ratio\<close>.
\<close>

lemma vals_seeded:
  "list_all (\<lambda>x. x = c) (vals (times_scalar (tf_ones sh) c))"
  by (simp add: times_scalar_def t_map_def tf_ones_def list_all_iff)

lemma initialize_coefficient_seed:
  "initialize_coefficient self ran_gf = Inr (lp, s) \<Longrightarrow> resolve_sd_prior (weight_prior_sd self) (length (impulse_names self) + 1) = Inr v \<Longrightarrow>
     list_all (\<lambda>x. x = constraint_fn_inv self
                 (v * posterior_to_prior_sd_ratio self
                    * (case ran_gf of None \<Rightarrow> 1 | Some gf \<Rightarrow> ranef_to_fixef_prior_sd_ratio self)))
       (vals (q_scale lp e))"
  by (auto simp: initialize_coefficient_def Let_def tf_Variable_def vals_seeded
      split: sum.splits option.splits)

lemma initialize_rnn_h_seed:
  "initialize_rnn_h self l ran_gf = Inr (lp, s) \<Longrightarrow> n_units_rnn_at self l = Inr units \<Longrightarrow> resolve_sd_prior (bias_prior_sd self) units = Inr v \<Longrightarrow>
     list_all (\<lambda>x. x = constraint_fn_inv self
                 (v * posterior_to_prior_sd_ratio self
                    * (case ran_gf of None \<Rightarrow> 1 | Some gf \<Rightarrow> ranef_to_fixef_prior_sd_ratio self)))
       (vals (q_scale lp e))"
  by (auto simp: initialize_rnn_h_def Let_def tf_Variable_def vals_seeded
      split: sum.splits option.splits)

lemma initialize_rnn_c_seed:
  "initialize_rnn_c self l ran_gf = Inr (lp, s) \<Longrightarrow> n_units_rnn_at self l = Inr units \<Longrightarrow> resolve_sd_prior (bias_prior_sd self) units = Inr v \<Longrightarrow>
     list_all (\<lambda>x. x = constraint_fn_inv self
                 (v * posterior_to_prior_sd_ratio self
                    * (case ran_gf of None \<Rightarrow> 1 | Some gf \<Rightarrow> ranef_to_fixef_prior_sd_ratio self)))
       (vals (q_scale lp e))"
  by (auto simp: initialize_rnn_c_def Let_def tf_Variable_def vals_seeded
      split: sum.splits option.splits)

lemma initialize_h_bias_seed:
  "initialize_h_bias self ran_gf = Inr (lp, s) \<Longrightarrow> resolve_sd_prior (bias_prior_sd self) (n_units_hidden_state self) = Inr v \<Longrightarrow>
     list_all (\<lambda>x. x = constraint_fn_inv self
                 (v * posterior_to_prior_sd_ratio self
                    * (case ran_gf of None \<Rightarrow> 1 | Some gf \<Rightarrow> ranef_to_fixef_prior_sd_ratio self)))
       (vals (q_scale lp e))"
  by (auto simp: initialize_h_bias_def Let_def tf_Variable_def vals_seeded
      split: sum.splits option.splits)

lemma initialize_coefficient_ranef_prior:
  "initialize_coefficient self (Some gf) = Inr (lp, s) \<Longrightarrow> resolve_sd_prior (weight_prior_sd self) (length (impulse_names self) + 1) = Inr v \<Longrightarrow>
     prior_dist lp = Some p \<Longrightarrow> scale p e = scalar (v * ranef_to_fixef_prior_sd_ratio self)"
  by (auto simp: initialize_coefficient_def Let_def Normal_def tf_constant_def
      split: sum.splits option.splits if_splits)

lemma initialize_rnn_h_ranef_prior:
  "initialize_rnn_h self l (Some gf) = Inr (lp, s) \<Longrightarrow> n_units_rnn_at self l = Inr units \<Longrightarrow> resolve_sd_prior (bias_prior_sd self) units = Inr v \<Longrightarrow>
     prior_dist lp = Some p \<Longrightarrow> scale p e = scalar (v * ranef_to_fixef_prior_sd_ratio self)"
  by (auto simp: initialize_rnn_h_def Let_def Normal_def tf_constant_def
      split: sum.splits option.splits if_splits)

lemma initialize_rnn_c_ranef_prior:
  "initialize_rnn_c self l (Some gf) = Inr (lp, s) \<Longrightarrow> n_units_rnn_at self l = Inr units \<Longrightarrow> resolve_sd_prior (bias_prior_sd self) units = Inr v \<Longrightarrow>
     prior_dist lp = Some p \<Longrightarrow> scale p e = scalar (v * ranef_to_fixef_prior_sd_ratio self)"
  by (auto simp: initialize_rnn_c_def Let_def Normal_def tf_constant_def
      split: sum.splits option.splits if_splits)

lemma initialize_irf_l1_W_bias_ranef_prior:
  "initialize_irf_l1_W_bias self (Some gf) = Inr (lp, s) \<Longrightarrow> resolve_sd_prior (weight_prior_sd self) (n_units_t_delta_embedding self) = Inr v \<Longrightarrow>
     prior_dist lp = Some p \<Longrightarrow> scale p e = scalar (v * ranef_to_fixef_prior_sd_ratio self)"
  by (auto simp: initialize_irf_l1_W_bias_def Let_def Normal_def tf_constant_def
      split: sum.splits option.splits if_splits)

lemma initialize_irf_l1_b_bias_ranef_prior:
  "initialize_irf_l1_b_bias self (Some gf) = Inr (lp, s) \<Longrightarrow> resolve_sd_prior (bias_prior_sd self) (n_units_t_delta_embedding self) = Inr v \<Longrightarrow>
     prior_dist lp = Some p \<Longrightarrow> scale p e = scalar (v * ranef_to_fixef_prior_sd_ratio self)"
  by (auto simp: initialize_irf_l1_b_bias_def Let_def Normal_def tf_constant_def
      split: sum.splits option.splits if_splits)

lemma initialize_intercept_ranef_prior:
  "initialize_intercept self (Some gf) = Inr (lp, s) \<Longrightarrow> prior_dist lp = Some p \<Longrightarrow>
     scale p e = scalar (intercept_prior_sd_tf self * ranef_to_fixef_prior_sd_ratio self)"
  by (auto simp: initialize_intercept_def Let_def Normal_def tf_constant_def
      split: sum.splits option.splits if_splits)

lemma demo_metadata:
  "intercept_prior_sd_tf (initialize_metadata demo_self) = 1"
  "intercept_ranef_prior_sd_tf (initialize_metadata demo_self) = 1/10"
  "intercept_posterior_sd_init (initialize_metadata demo_self) = 1/100"
  "intercept_ranef_posterior_sd_init (initialize_metadata demo_self) = 1/1000"
  by (simp_all add: initialize_metadata_def demo_self_def Let_def)

text \<open>
  Claim C3, evaluated where the code departs from it. The claim is that the constrained
  posterior scale at construction is the prior scale of the call times
  \<open>posterior_to_prior_sd_ratio\<close>. In the random-effect call of \<open>initialize_intercept\<close>
  the prior scale is 1/10 and the ratio is 1/100, but the constrained posterior scale is
  1/10000 and not 1/1000: the ranef-to-fixef ratio is applied once in
  \<open>_initialize_metadata\<close> and once more in the builder. In the fixed-effect call of
  \<open>initialize_irf_l1_biases\<close> the scale variables are \<open>tf.zeros\<close> times the seed, so the
  constrained posterior scales are 0 and not 1/100 and 1/50.
\<close>

theorem posterior_scale_seed_defects:
  "(case initialize_intercept (initialize_metadata demo_self) (Some ''subject'') of
      Inl ex \<Rightarrow> False
    | Inr (lp, s) \<Rightarrow>
        (case prior_dist lp of
           None \<Rightarrow> False
         | Some p \<Rightarrow>
             scale p demo_env = scalar (1/10)
           \<and> n_map (constraint_fn demo_self) (q_scale lp) demo_env
               = \<lparr>dims = [2], vals = [1/10000, 1/10000]\<rparr>
           \<and> 1/10 * posterior_to_prior_sd_ratio demo_self = 1/1000))
   \<and> (case initialize_irf_l1_biases demo_self None of
      Inl ex \<Rightarrow> False
    | Inr (W, b, s) \<Rightarrow>
        (case (prior_dist W, prior_dist b) of
           (Some pW, Some pb) \<Rightarrow>
             scale pW demo_env = scalar 1 \<and> scale pb demo_env = scalar 2
           \<and> n_map (constraint_fn demo_self) (q_scale W) demo_env
               = \<lparr>dims = [1, 1, 2], vals = [0, 0]\<rparr>
           \<and> n_map (constraint_fn demo_self) (q_scale b) demo_env
               = \<lparr>dims = [1, 1, 2], vals = [0, 0]\<rparr>
           \<and> 1 * posterior_to_prior_sd_ratio demo_self = 1/100
           \<and> 2 * posterior_to_prior_sd_ratio demo_self = 1/50
         | _ \<Rightarrow> False))"
proof -
  have 1: "(case initialize_intercept (initialize_metadata demo_self) (Some ''subject'') of
      Inl ex \<Rightarrow> False
    | Inr (lp, s) \<Rightarrow>
        (case prior_dist lp of
           None \<Rightarrow> False
         | Some p \<Rightarrow>
             scale p demo_env = scalar (1/10)
           \<and> n_map (constraint_fn demo_self) (q_scale lp) demo_env
               = \<lparr>dims = [2], vals = [1/10000, 1/10000]\<rparr>
           \<and> 1/10 * posterior_to_prior_sd_ratio demo_self = 1/1000))"
    by (simp add: initialize_intercept_def leading_dim_def rangf_n_levels_minus_one_def
        initialize_metadata_def demo_self_def Let_def Normal_def tf_constant_def tf_Variable_def
        n_map_def t_map_def times_scalar_def tf_ones_def scalar_def numeral_2_eq_2)
  have 2: "(case initialize_irf_l1_biases demo_self None of
      Inl ex \<Rightarrow> False
    | Inr (W, b, s) \<Rightarrow>
        (case (prior_dist W, prior_dist b) of
           (Some pW, Some pb) \<Rightarrow>
             scale pW demo_env = scalar 1 \<and> scale pb demo_env = scalar 2
           \<and> n_map (constraint_fn demo_self) (q_scale W) demo_env
               = \<lparr>dims = [1, 1, 2], vals = [0, 0]\<rparr>
           \<and> n_map (constraint_fn demo_self) (q_scale b) demo_env
               = \<lparr>dims = [1, 1, 2], vals = [0, 0]\<rparr>
           \<and> 1 * posterior_to_prior_sd_ratio demo_self = 1/100
           \<and> 2 * posterior_to_prior_sd_ratio demo_self = 1/50
         | _ \<Rightarrow> False))"
    by (simp add: initialize_irf_l1_biases_def initialize_irf_l1_W_bias_def
        initialize_irf_l1_b_bias_def resolve_sd_prior_def append_kl_def
        demo_self_def Let_def Normal_def tf_constant_def tf_Variable_def
        n_map_def t_map_def times_scalar_def tf_zeros_def scalar_def numeral_2_eq_2)
  from 1 2 show ?thesis ..
qed

text \<open>
  Claim C4, evaluated where the code departs from it. With a fixed-effect prior scale of 2
  for the hidden-state bias and a ranef-to-fixef ratio of 1/10, the claim gives the
  random-effect prior the scale 1/5; \<open>initialize_h_bias\<close> gives it the scale 4, the square
  of the fixed-effect prior scale.
\<close>

theorem h_bias_ranef_prior_scale_is_squared:
  "(case initialize_h_bias demo_self (Some ''subject'') of
      Inl ex \<Rightarrow> False
    | Inr (lp, s) \<Rightarrow>
        (case prior_dist lp of
           None \<Rightarrow> False
         | Some p \<Rightarrow> scale p demo_env = scalar 4))
   \<and> resolve_sd_prior (bias_prior_sd demo_self) (n_units_hidden_state demo_self) = Inr 2
   \<and> 2 * ranef_to_fixef_prior_sd_ratio demo_self = 1/5"
  by (simp add: initialize_h_bias_def resolve_sd_prior_def leading_dim_def
      rangf_n_levels_minus_one_def demo_self_def Let_def Normal_def tf_constant_def)

subsection \<open>Predictions\<close>

text \<open>
  Claim C5, evaluated where the code departs from it. The model standardizes the response
  with training mean 10 and standard deviation 2, and the backbone outputs \<open>[1, -1]\<close> in
  standardized units, that is \<open>[12, 8]\<close> in raw units. \<open>run_predict_op\<close> returns
  \<open>[34, 26]\<close> by default, the raw predictions transformed a second time, and returns the
  raw \<open>[12, 8]\<close> when the caller asks for standardized units.
\<close>

theorem predictions_destandardized_twice:
  "standardize_response demo_self
   \<and> net_out demo_self demo_env = \<lparr>dims = [2], vals = [1, -1]\<rparr>
   \<and> y_train_sd demo_self = 2 \<and> y_train_mean demo_self = 10
   \<and> (case initialize_objective demo_lib demo_self of
         Inl ex \<Rightarrow> False
       | Inr obj \<Rightarrow>
           run_predict_op demo_self obj demo_env False = \<lparr>dims = [2], vals = [34, 26]\<rparr>
         \<and> run_predict_op demo_self obj demo_env True = \<lparr>dims = [2], vals = [12, 8]\<rparr>)"
  by (simp add: initialize_objective_def initialize_output_model_def initialize_y_sd_def
      filter_config_def run_predict_op_def demo_self_def demo_env_def Let_def
      Normal_def tf_constant_def tf_cond_def mean_def n_map_def t_map_def)


subsection \<open>Summaries\<close>

lemma wired_summary:
  assumes "posterior_wired self lp"
  shows "lp_summary lp e = mean (q_dist lp) e" "mean (q_dist lp) e = q_loc lp e"
  using assms by (simp_all add: posterior_wired_def Normal_def mean_def)

lemma initialize_intercept_q_loc_mode:
  "initialize_intercept self ran_gf = Inr (lp, s) \<Longrightarrow>
     q_loc lp (e\<lparr>use_MAP_mode := b\<rparr>) = q_loc lp e"
  by (auto simp: initialize_intercept_def Let_def tf_Variable_def split: sum.splits option.splits)

lemma initialize_coefficient_q_loc_mode:
  "initialize_coefficient self ran_gf = Inr (lp, s) \<Longrightarrow>
     q_loc lp (e\<lparr>use_MAP_mode := b\<rparr>) = q_loc lp e"
  by (auto simp: initialize_coefficient_def Let_def tf_Variable_def split: sum.splits option.splits)

lemma initialize_rnn_h_q_loc_mode:
  "initialize_rnn_h self l ran_gf = Inr (lp, s) \<Longrightarrow>
     q_loc lp (e\<lparr>use_MAP_mode := b\<rparr>) = q_loc lp e"
  by (auto simp: initialize_rnn_h_def Let_def tf_Variable_def split: sum.splits option.splits)

lemma initialize_rnn_c_q_loc_mode:
  "initialize_rnn_c self l ran_gf = Inr (lp, s) \<Longrightarrow>
     q_loc lp (e\<lparr>use_MAP_mode := b\<rparr>) = q_loc lp e"
  by (auto simp: initialize_rnn_c_def Let_def tf_Variable_def split: sum.splits option.splits)

lemma initialize_h_bias_q_loc_mode:
  "initialize_h_bias self ran_gf = Inr (lp, s) \<Longrightarrow>
     q_loc lp (e\<lparr>use_MAP_mode := b\<rparr>) = q_loc lp e"
  by (auto simp: initialize_h_bias_def Let_def tf_Variable_def split: sum.splits option.splits)

lemma initialize_irf_l1_W_bias_q_loc_mode:
  "initialize_irf_l1_W_bias self ran_gf = Inr (lp, s) \<Longrightarrow>
     q_loc lp (e\<lparr>use_MAP_mode := b\<rparr>) = q_loc lp e"
  by (auto simp: initialize_irf_l1_W_bias_def Let_def tf_Variable_def split: sum.splits option.splits)

lemma initialize_irf_l1_b_bias_q_loc_mode:
  "initialize_irf_l1_b_bias self ran_gf = Inr (lp, s) \<Longrightarrow>
     q_loc lp (e\<lparr>use_MAP_mode := b\<rparr>) = q_loc lp e"
  by (auto simp: initialize_irf_l1_b_bias_def Let_def tf_Variable_def split: sum.splits option.splits)


lemma summary_from_wired:
  assumes "posterior_wired self lp" "\<And>b. q_loc lp (e\<lparr>use_MAP_mode := b\<rparr>) = q_loc lp e"
  shows "summary_is_posterior_mean lp e"
  using assms(2)
  by (simp add: summary_is_posterior_mean_def wired_summary[OF assms(1)])

lemma y_sd_summary_form:
  assumes "initialize_y_sd self = ((yd, v, sm), s)"
  shows "sm (e\<lparr>use_MAP_mode := True\<rparr>) = sm (e\<lparr>use_MAP_mode := False\<rparr>)"
    and "yd = Some d \<Longrightarrow>
          sm e = t_map (\<lambda>v. constraint_fn self v + epsilon self)
                   (bcast2 (+) (mean d e) (y_sd_delta_ema e))"
  using assms
  by (auto simp: initialize_y_sd_def Let_def constrain_def n_map_def n_bcast2_def mean_def
      Normal_def tf_Variable_def tf_constant_def split: if_splits)

lemma output_model_summaries:
  assumes "initialize_output_model lib self = Inr (om, s)"
  shows "y_sd_summary om (e\<lparr>use_MAP_mode := True\<rparr>) = y_sd_summary om (e\<lparr>use_MAP_mode := False\<rparr>)"
    and "y_sd_dist om = Some d \<Longrightarrow>
          y_sd_summary om e = t_map (\<lambda>v. constraint_fn self v + epsilon self)
                   (bcast2 (+) (mean d e) (y_sd_delta_ema e))"
    and "y_skewness_dist om = Some d \<Longrightarrow>
          (\<exists>sm. y_skewness_summary om = Some sm
             \<and> sm e = bcast2 (+) (mean d e) (y_skewness_delta_ema e)
             \<and> sm (e\<lparr>use_MAP_mode := True\<rparr>) = sm (e\<lparr>use_MAP_mode := False\<rparr>))"
    and "y_tailweight_dist om = Some d \<Longrightarrow>
          (\<exists>sm. y_tailweight_summary om = Some sm
             \<and> sm e = bcast2 (+) (mean d e) (y_tailweight_delta_ema e)
             \<and> sm (e\<lparr>use_MAP_mode := True\<rparr>) = sm (e\<lparr>use_MAP_mode := False\<rparr>))"
proof -
  obtain yd v sm s1 where y: "initialize_y_sd self = ((yd, v, sm), s1)"
    by (metis prod_cases3 surj_pair)
  have f: "y_sd_dist om = yd \<and> y_sd_summary om = sm"
    using assms y
    by (auto simp: initialize_output_model_def Let_def split: if_splits option.splits)
  show "y_sd_summary om (e\<lparr>use_MAP_mode := True\<rparr>) = y_sd_summary om (e\<lparr>use_MAP_mode := False\<rparr>)"
    using y_sd_summary_form(1)[OF y] f by simp
  show "y_sd_dist om = Some d \<Longrightarrow>
          y_sd_summary om e = t_map (\<lambda>v. constraint_fn self v + epsilon self)
                   (bcast2 (+) (mean d e) (y_sd_delta_ema e))"
    using y_sd_summary_form(2)[OF y] f by simp
  show "y_skewness_dist om = Some d \<Longrightarrow>
          (\<exists>sm. y_skewness_summary om = Some sm
             \<and> sm e = bcast2 (+) (mean d e) (y_skewness_delta_ema e)
             \<and> sm (e\<lparr>use_MAP_mode := True\<rparr>) = sm (e\<lparr>use_MAP_mode := False\<rparr>))"
    using assms y
    by (auto simp: initialize_output_model_def Let_def n_bcast2_def mean_def
        Normal_def tf_Variable_def split: if_splits option.splits)
  show "y_tailweight_dist om = Some d \<Longrightarrow>
          (\<exists>sm. y_tailweight_summary om = Some sm
             \<and> sm e = bcast2 (+) (mean d e) (y_tailweight_delta_ema e)
             \<and> sm (e\<lparr>use_MAP_mode := True\<rparr>) = sm (e\<lparr>use_MAP_mode := False\<rparr>))"
    using assms y
    by (auto simp: initialize_output_model_def Let_def n_bcast2_def mean_def
        Normal_def tf_Variable_def split: if_splits option.splits)
qed


text \<open>
  Claim C1, as amended. The summary of every latent parameter is the same under
  \<open>use_MAP_mode\<close> true and false. For the parameters of the builders (intercept,
  coefficient, RNN hidden and cell bias, hidden-state bias, the two IRF first-layer
  biases) the summary is the posterior mean. For the parameters of the output model it is
  not: the summary of \<open>y_sd\<close> is \<open>constraint_fn(mean + y_sd_delta_ema) + epsilon\<close>, and the
  summaries of \<open>y_skewness\<close> and \<open>y_tailweight\<close> are the posterior mean plus the running
  average of their deltas.
\<close>

theorem summary_mode_independent:
  "(initialize_intercept self ran_gf = Inr (lp, s) \<longrightarrow> summary_is_posterior_mean lp e)
   \<and> (initialize_coefficient self ran_gf = Inr (lp, s) \<longrightarrow> summary_is_posterior_mean lp e)
   \<and> (initialize_rnn_h self l ran_gf = Inr (lp, s) \<longrightarrow> summary_is_posterior_mean lp e)
   \<and> (initialize_rnn_c self l ran_gf = Inr (lp, s) \<longrightarrow> summary_is_posterior_mean lp e)
   \<and> (initialize_h_bias self ran_gf = Inr (lp, s) \<longrightarrow> summary_is_posterior_mean lp e)
   \<and> (initialize_irf_l1_biases self ran_gf = Inr (lp, lp', s) \<longrightarrow>
         summary_is_posterior_mean lp e \<and> summary_is_posterior_mean lp' e)
   \<and> (initialize_output_model lib self = Inr (om, s) \<longrightarrow>
            y_sd_summary om (e\<lparr>use_MAP_mode := True\<rparr>) = y_sd_summary om (e\<lparr>use_MAP_mode := False\<rparr>)
          \<and> (\<forall>d. y_sd_dist om = Some d \<longrightarrow>
                y_sd_summary om e = t_map (\<lambda>v. constraint_fn self v + epsilon self)
                   (bcast2 (+) (mean d e) (y_sd_delta_ema e)))
          \<and> (\<forall>d. y_skewness_dist om = Some d \<longrightarrow>
                (\<exists>sm. y_skewness_summary om = Some sm
                   \<and> sm e = bcast2 (+) (mean d e) (y_skewness_delta_ema e)
                   \<and> sm (e\<lparr>use_MAP_mode := True\<rparr>) = sm (e\<lparr>use_MAP_mode := False\<rparr>)))
          \<and> (\<forall>d. y_tailweight_dist om = Some d \<longrightarrow>
                (\<exists>sm. y_tailweight_summary om = Some sm
                   \<and> sm e = bcast2 (+) (mean d e) (y_tailweight_delta_ema e)
                   \<and> sm (e\<lparr>use_MAP_mode := True\<rparr>) = sm (e\<lparr>use_MAP_mode := False\<rparr>))))"
proof -
  have b1: "initialize_intercept self ran_gf = Inr (lp, s) \<longrightarrow> summary_is_posterior_mean lp e"
    using summary_from_wired[OF initialize_intercept_wired] initialize_intercept_q_loc_mode by blast
  have b2: "initialize_coefficient self ran_gf = Inr (lp, s) \<longrightarrow> summary_is_posterior_mean lp e"
    using summary_from_wired[OF initialize_coefficient_wired] initialize_coefficient_q_loc_mode by blast
  have b3: "initialize_rnn_h self l ran_gf = Inr (lp, s) \<longrightarrow> summary_is_posterior_mean lp e"
    using summary_from_wired[OF initialize_rnn_h_wired] initialize_rnn_h_q_loc_mode by blast
  have b4: "initialize_rnn_c self l ran_gf = Inr (lp, s) \<longrightarrow> summary_is_posterior_mean lp e"
    using summary_from_wired[OF initialize_rnn_c_wired] initialize_rnn_c_q_loc_mode by blast
  have b5: "initialize_h_bias self ran_gf = Inr (lp, s) \<longrightarrow> summary_is_posterior_mean lp e"
    using summary_from_wired[OF initialize_h_bias_wired] initialize_h_bias_q_loc_mode by blast
  have b6: "summary_is_posterior_mean lp e \<and> summary_is_posterior_mean lp' e"
    if r: "initialize_irf_l1_biases self ran_gf = Inr (lp, lp', s)"
  proof -
    from r obtain m where W: "initialize_irf_l1_W_bias self ran_gf = Inr (lp, m)"
      and B: "initialize_irf_l1_b_bias m ran_gf = Inr (lp', s)"
      by (auto simp: initialize_irf_l1_biases_def split: sum.splits)
    have "summary_is_posterior_mean lp e"
      using summary_from_wired[OF initialize_irf_l1_W_bias_wired[OF W]]
        initialize_irf_l1_W_bias_q_loc_mode[OF W] by blast
    moreover have "summary_is_posterior_mean lp' e"
      using summary_from_wired[OF initialize_irf_l1_b_bias_wired[OF B]]
        initialize_irf_l1_b_bias_q_loc_mode[OF B] by blast
    ultimately show ?thesis ..
  qed
  have b7: "y_sd_summary om (e\<lparr>use_MAP_mode := True\<rparr>) = y_sd_summary om (e\<lparr>use_MAP_mode := False\<rparr>)
          \<and> (\<forall>d. y_sd_dist om = Some d \<longrightarrow>
                y_sd_summary om e = t_map (\<lambda>v. constraint_fn self v + epsilon self)
                   (bcast2 (+) (mean d e) (y_sd_delta_ema e)))
          \<and> (\<forall>d. y_skewness_dist om = Some d \<longrightarrow>
                (\<exists>sm. y_skewness_summary om = Some sm
                   \<and> sm e = bcast2 (+) (mean d e) (y_skewness_delta_ema e)
                   \<and> sm (e\<lparr>use_MAP_mode := True\<rparr>) = sm (e\<lparr>use_MAP_mode := False\<rparr>)))
          \<and> (\<forall>d. y_tailweight_dist om = Some d \<longrightarrow>
                (\<exists>sm. y_tailweight_summary om = Some sm
                   \<and> sm e = bcast2 (+) (mean d e) (y_tailweight_delta_ema e)
                   \<and> sm (e\<lparr>use_MAP_mode := True\<rparr>) = sm (e\<lparr>use_MAP_mode := False\<rparr>)))"
    if r: "initialize_output_model lib self = Inr (om, s)"
    using output_model_summaries[OF r] by blast
  from b1 b2 b3 b4 b5 b6 b7 show ?thesis by blast
qed


text \<open>
  Claim C1 as stated fails for the output model: with a trained running average
  \<open>y_skewness_delta_ema = 1\<close> the summary of \<open>y_skewness\<close> is 1 while its posterior mean
  is 0, and the summary of \<open>y_sd\<close> is the constrained and floored \<open>1 + epsilon\<close> while
  the posterior mean is 1.
\<close>

theorem summary_is_not_always_posterior_mean:
  "(case initialize_output_model demo_lib demo_asymmetric of
      Inl ex \<Rightarrow> False
    | Inr (om, s) \<Rightarrow>
        (case (y_sd_dist om, y_skewness_dist om, y_skewness_summary om) of
           (Some d, Some dk, Some sk) \<Rightarrow>
             mean d demo_trained_env = scalar 1
           \<and> y_sd_summary om demo_trained_env = scalar (1 + 1/100000000)
           \<and> y_sd_summary om demo_trained_env \<noteq> mean d demo_trained_env
           \<and> mean dk demo_trained_env = scalar 0
           \<and> sk demo_trained_env = scalar 1
           \<and> sk demo_trained_env \<noteq> mean dk demo_trained_env
         | _ \<Rightarrow> False))"
  by (simp add: initialize_output_model_def initialize_y_sd_def demo_asymmetric_def
      demo_trained_env_def demo_self_def demo_env_def Let_def append_kl_def
      Normal_def mean_def tf_Variable_def tf_constant_def constrain_def n_map_def n_bcast2_def
      bcast2_def t_map_def scalar_def)

theorem summary_mode_independent_witness:
  "(case initialize_intercept demo_self (Some ''subject'') of
      Inl ex \<Rightarrow> False | Inr (lp, s) \<Rightarrow> summary_is_posterior_mean lp demo_env)
   \<and> (case initialize_coefficient demo_self (Some ''subject'') of
      Inl ex \<Rightarrow> False | Inr (lp, s) \<Rightarrow> summary_is_posterior_mean lp demo_env)
   \<and> (case initialize_rnn_h demo_self 0 (Some ''subject'') of
      Inl ex \<Rightarrow> False | Inr (lp, s) \<Rightarrow> summary_is_posterior_mean lp demo_env)
   \<and> (case initialize_rnn_c demo_self 0 (Some ''subject'') of
      Inl ex \<Rightarrow> False | Inr (lp, s) \<Rightarrow> summary_is_posterior_mean lp demo_env)
   \<and> (case initialize_h_bias demo_self (Some ''subject'') of
      Inl ex \<Rightarrow> False | Inr (lp, s) \<Rightarrow> summary_is_posterior_mean lp demo_env)
   \<and> (case initialize_irf_l1_biases demo_self (Some ''subject'') of
      Inl ex \<Rightarrow> False
    | Inr (lp, lp', s) \<Rightarrow>
        summary_is_posterior_mean lp demo_env \<and> summary_is_posterior_mean lp' demo_env)
   \<and> (case initialize_output_model demo_lib demo_asymmetric of
      Inl ex \<Rightarrow> False
    | Inr (om, s) \<Rightarrow>
        y_sd_summary om (demo_trained_env\<lparr>use_MAP_mode := True\<rparr>)
          = y_sd_summary om (demo_trained_env\<lparr>use_MAP_mode := False\<rparr>)
      \<and> (case (y_sd_dist om, y_skewness_dist om, y_skewness_summary om,
                y_tailweight_dist om, y_tailweight_summary om) of
           (Some d, Some dk, Some sk, Some dt, Some st) \<Rightarrow>
             y_sd_summary om demo_trained_env
               = t_map (\<lambda>v. constraint_fn demo_asymmetric v + epsilon demo_asymmetric)
                   (bcast2 (+) (mean d demo_trained_env) (y_sd_delta_ema demo_trained_env))
           \<and> sk demo_trained_env
               = bcast2 (+) (mean dk demo_trained_env) (y_skewness_delta_ema demo_trained_env)
           \<and> sk (demo_trained_env\<lparr>use_MAP_mode := True\<rparr>)
               = sk (demo_trained_env\<lparr>use_MAP_mode := False\<rparr>)
           \<and> st demo_trained_env
               = bcast2 (+) (mean dt demo_trained_env) (y_tailweight_delta_ema demo_trained_env)
           \<and> st (demo_trained_env\<lparr>use_MAP_mode := True\<rparr>)
               = st (demo_trained_env\<lparr>use_MAP_mode := False\<rparr>)
         | _ \<Rightarrow> False))"
proof -
  note ev = resolve_sd_prior_def leading_dim_def rangf_n_levels_minus_one_def n_units_rnn_at_def
    demo_self_def Let_def
  obtain p1 s1 where r1: "initialize_intercept demo_self (Some ''subject'') = Inr (p1, s1)"
    by (simp add: initialize_intercept_def ev)
  obtain p2 s2 where r2: "initialize_coefficient demo_self (Some ''subject'') = Inr (p2, s2)"
    by (simp add: initialize_coefficient_def ev)
  obtain p3 s3 where r3: "initialize_rnn_h demo_self 0 (Some ''subject'') = Inr (p3, s3)"
    by (simp add: initialize_rnn_h_def ev)
  obtain p4 s4 where r4: "initialize_rnn_c demo_self 0 (Some ''subject'') = Inr (p4, s4)"
    by (simp add: initialize_rnn_c_def ev)
  obtain p5 s5 where r5: "initialize_h_bias demo_self (Some ''subject'') = Inr (p5, s5)"
    by (simp add: initialize_h_bias_def ev)
  obtain p6 p7 s6 where r6: "initialize_irf_l1_biases demo_self (Some ''subject'') = Inr (p6, p7, s6)"
    by (simp add: initialize_irf_l1_biases_def initialize_irf_l1_W_bias_def
        initialize_irf_l1_b_bias_def append_kl_def ev)
  obtain om s7 where r7: "initialize_output_model demo_lib demo_asymmetric = Inr (om, s7)"
    by (simp add: initialize_output_model_def initialize_y_sd_def demo_asymmetric_def ev)
  obtain d dk dt where dd: "y_sd_dist om = Some d" "y_skewness_dist om = Some dk"
      "y_tailweight_dist om = Some dt"
    using r7
    by (auto simp: initialize_output_model_def initialize_y_sd_def demo_asymmetric_def ev)
  have t1: "summary_is_posterior_mean p1 demo_env"
    using summary_mode_independent[of demo_self "Some ''subject''" p1 s1 demo_env] r1 by blast
  have t2: "summary_is_posterior_mean p2 demo_env"
    using summary_mode_independent[of demo_self "Some ''subject''" p2 s2 demo_env] r2 by blast
  have t3: "summary_is_posterior_mean p3 demo_env"
    using summary_mode_independent[of demo_self "Some ''subject''" p3 s3 demo_env 0] r3 by blast
  have t4: "summary_is_posterior_mean p4 demo_env"
    using summary_mode_independent[of demo_self "Some ''subject''" p4 s4 demo_env 0] r4 by blast
  have t5: "summary_is_posterior_mean p5 demo_env"
    using summary_mode_independent[of demo_self "Some ''subject''" p5 s5 demo_env] r5 by blast
  have t6: "summary_is_posterior_mean p6 demo_env \<and> summary_is_posterior_mean p7 demo_env"
    using summary_mode_independent[of demo_self "Some ''subject''" p6 s6 demo_env _ p7] r6
    by blast
  from summary_mode_independent[of demo_asymmetric _ _ s7 demo_trained_env _ _ demo_lib om] r7 dd
  obtain sk st where t7:
    "y_sd_summary om (demo_trained_env\<lparr>use_MAP_mode := True\<rparr>)
          = y_sd_summary om (demo_trained_env\<lparr>use_MAP_mode := False\<rparr>)"
    "y_sd_summary om demo_trained_env
               = t_map (\<lambda>v. constraint_fn demo_asymmetric v + epsilon demo_asymmetric)
                   (bcast2 (+) (mean d demo_trained_env) (y_sd_delta_ema demo_trained_env))"
    "y_skewness_summary om = Some sk"
    "sk demo_trained_env
               = bcast2 (+) (mean dk demo_trained_env) (y_skewness_delta_ema demo_trained_env)"
    "sk (demo_trained_env\<lparr>use_MAP_mode := True\<rparr>)
               = sk (demo_trained_env\<lparr>use_MAP_mode := False\<rparr>)"
    "y_tailweight_summary om = Some st"
    "st demo_trained_env
               = bcast2 (+) (mean dt demo_trained_env) (y_tailweight_delta_ema demo_trained_env)"
    "st (demo_trained_env\<lparr>use_MAP_mode := True\<rparr>)
               = st (demo_trained_env\<lparr>use_MAP_mode := False\<rparr>)"
    by blast
  show ?thesis
    using r1 r2 r3 r4 r5 r6 r7 t1 t2 t3 t4 t5 t6 t7 dd by simp
qed


subsection \<open>The loss filter\<close>

lemma sum_indicator:
  "sum_list (map (\<lambda>x. if P x then 1 else (0::real)) xs) = real (length (filter P xs))"
  by (induction xs) simp_all

lemma map2_indicator:
  "map2 (*) xs (map (\<lambda>x. if P x then 1 else (0::real)) xs) = map (\<lambda>x. if P x then x else 0) xs"
  by (induction xs) simp_all

lemma sum_masked:
  "sum_list (map (\<lambda>x. if P x then x else (0::real)) xs) = sum_list (filter P xs)"
  by (induction xs) simp_all

lemma sum_sq_masked:
  "sum_list (map (\<lambda>x. (x - m)\<^sup>2) (map (\<lambda>x. if P x then x else (0::real)) xs))
     = sum_list (map (\<lambda>x. (x - m)\<^sup>2) (filter P xs))
       + real (length (filter (\<lambda>x. \<not> P x) xs)) * m\<^sup>2"
  by (induction xs) (simp_all add: algebra_simps)

lemma count_dropped:
  "real (length xs) - real (length (filter P xs)) = real (length (filter (\<lambda>x. \<not> P x) xs))"
  using sum_length_filter_compl[of P xs] by simp

lemma objective_filter:
  assumes r: "initialize_objective lib self = Inr obj"
    and f: "filter_config self = Some (n_sds, beta)"
  shows "n_dropped obj
           = Some (\<lambda>e. real (length (ll obj e))
                      - sum_list (map (\<lambda>x. if x < loss_cutoff n_sds e then 1 else 0)
                           (map uminus (ll obj e))))"
    and "loss_func_per_example obj
           = (\<lambda>e. if global_batch_step e > py_int (2 / (1 - beta))
                   then map2 (*) (map uminus (ll obj e))
                          (map (\<lambda>x. if x < loss_cutoff n_sds e then 1 else 0)
                             (map uminus (ll obj e)))
                   else map uminus (ll obj e))"
    and "loss_ema_op obj
           = Some (\<lambda>e. beta * loss_ema e + (1 - beta) *
                (sum_list (loss_func_per_example obj e)
                 / ((if global_batch_step e > py_int (2 / (1 - beta))
                     then sum_list (map (\<lambda>x. if x < loss_cutoff n_sds e then 1 else 0)
                                      (map uminus (ll obj e)))
                     else real (length (ll obj e))) + epsilon self)))"
    and "loss_sd_ema_op obj
           = Some (\<lambda>e. beta * loss_sd_ema e + (1 - beta) *
                (sqrt (sum_list (map (\<lambda>x. (x - loss_ema e)\<^sup>2) (loss_func_per_example obj e)))
                 / ((if global_batch_step e > py_int (2 / (1 - beta))
                     then sum_list (map (\<lambda>x. if x < loss_cutoff n_sds e then 1 else 0)
                                      (map uminus (ll obj e)))
                     else real (length (ll obj e))) + epsilon self)))"
proof -
  from r obtain om' self1 where om: "initialize_output_model lib self = Inr (om', self1)"
    by (auto simp: initialize_objective_def split: sum.splits)
  have k: "same_but_kl self self1" by (rule initialize_output_model_keeps[OF om])
  have f1: "filter_config self1 = Some (n_sds, beta)" by (simp add: filter_config_same[OF k] f)
  have e1: "epsilon self1 = epsilon self" by (simp add: same_but_kl_fields[OF k])
  have o: "obj_om obj = obj_om obj" ..
  show "n_dropped obj
           = Some (\<lambda>e. real (length (ll obj e))
                      - sum_list (map (\<lambda>x. if x < loss_cutoff n_sds e then 1 else 0)
                           (map uminus (ll obj e))))"
    using r om f1
    by (auto simp: initialize_objective_def Let_def loss_cutoff_def tf_cond_def fun_eq_iff
        split: sum.splits option.splits prod.splits if_splits)
  show "loss_func_per_example obj
           = (\<lambda>e. if global_batch_step e > py_int (2 / (1 - beta))
                   then map2 (*) (map uminus (ll obj e))
                          (map (\<lambda>x. if x < loss_cutoff n_sds e then 1 else 0)
                             (map uminus (ll obj e)))
                   else map uminus (ll obj e))"
    using r om f1
    by (auto simp: initialize_objective_def Let_def loss_cutoff_def tf_cond_def
        split: sum.splits option.splits prod.splits if_splits)
  show "loss_ema_op obj
           = Some (\<lambda>e. beta * loss_ema e + (1 - beta) *
                (sum_list (loss_func_per_example obj e)
                 / ((if global_batch_step e > py_int (2 / (1 - beta))
                     then sum_list (map (\<lambda>x. if x < loss_cutoff n_sds e then 1 else 0)
                                      (map uminus (ll obj e)))
                     else real (length (ll obj e))) + epsilon self)))"
    using r om f1 e1
    by (auto simp: initialize_objective_def Let_def loss_cutoff_def tf_cond_def fun_eq_iff
        split: sum.splits option.splits prod.splits if_splits)
  show "loss_sd_ema_op obj
           = Some (\<lambda>e. beta * loss_sd_ema e + (1 - beta) *
                (sqrt (sum_list (map (\<lambda>x. (x - loss_ema e)\<^sup>2) (loss_func_per_example obj e)))
                 / ((if global_batch_step e > py_int (2 / (1 - beta))
                     then sum_list (map (\<lambda>x. if x < loss_cutoff n_sds e then 1 else 0)
                                      (map uminus (ll obj e)))
                     else real (length (ll obj e))) + epsilon self)))"
    using r om f1 e1
    by (auto simp: initialize_objective_def Let_def loss_cutoff_def tf_cond_def fun_eq_iff
        split: sum.splits option.splits prod.splits if_splits)
qed


lemma filter_config_truthy:
  "filter_config self = Some (n_sds, beta) \<Longrightarrow> truthy (loss_filter_n_sds self)"
  by (auto simp: filter_config_def truthy_def split: option.splits if_splits)

lemma train_step_filtered:
  assumes r: "initialize_objective lib self = Inr obj"
    and f: "filter_config self = Some (n_sds, beta)"
    and w: "global_batch_step e > py_int (2 / (1 - beta))"
    and t: "run_train_step ops self obj e = Inr (d, e')"
  shows "(let lf = map uminus (ll obj e);
          kept = retained n_sds e lf;
          gone = dropped n_sds e lf
      in loss_func_per_example obj e
           = map (\<lambda>x. if x < loss_cutoff n_sds e then x else 0) lf
       \<and> loss_ema e'
           = beta * loss_ema e
             + (1 - beta) * (sum_list kept / (real (length kept) + epsilon self))
       \<and> loss_sd_ema e'
           = beta * loss_sd_ema e
             + (1 - beta)
               * (sqrt (sum_list (map (\<lambda>x. (x - loss_ema e)\<^sup>2) kept)
                        + real (length gone) * (loss_ema e)\<^sup>2)
                  / (real (length kept) + epsilon self))
       \<and> map_of d ''n_dropped'' = Some (Some (real (length gone))))"
proof -
  note o = objective_filter[OF r f]
  from run_train_step_dict[OF t] filter_config_truthy[OF f]
  obtain nd lop sop where
    a: "n_dropped obj = Some nd" "loss_ema_op obj = Some lop" "loss_sd_ema_op obj = Some sop"
       "map_of d ''n_dropped'' = Some (Some (nd e))" "loss_ema e' = lop e" "loss_sd_ema e' = sop e"
    by blast
  have pe: "loss_func_per_example obj e
      = map (\<lambda>x. if x < loss_cutoff n_sds e then x else 0) (map uminus (ll obj e))"
    using w by (simp add: o(2) map2_indicator del: map_map)
  have 1: "loss_ema e' = beta * loss_ema e + (1 - beta) *
      (sum_list (retained n_sds e (map uminus (ll obj e)))
       / (real (length (retained n_sds e (map uminus (ll obj e)))) + epsilon self))"
  proof -
    from a(2) o(3) have "lop e = beta * loss_ema e + (1 - beta) *
                (sum_list (loss_func_per_example obj e)
                 / ((if global_batch_step e > py_int (2 / (1 - beta))
                     then sum_list (map (\<lambda>x. if x < loss_cutoff n_sds e then 1 else 0)
                                      (map uminus (ll obj e)))
                     else real (length (ll obj e))) + epsilon self))"
      by auto
    then show ?thesis
      using w a(5)
      by (simp add: pe sum_indicator sum_masked retained_def del: map_map)
  qed
  have 2: "loss_sd_ema e' = beta * loss_sd_ema e + (1 - beta) *
      (sqrt (sum_list (map (\<lambda>x. (x - loss_ema e)\<^sup>2) (retained n_sds e (map uminus (ll obj e))))
             + real (length (dropped n_sds e (map uminus (ll obj e)))) * (loss_ema e)\<^sup>2)
       / (real (length (retained n_sds e (map uminus (ll obj e)))) + epsilon self))"
  proof -
    from a(3) o(4) have "sop e = beta * loss_sd_ema e + (1 - beta) *
                (sqrt (sum_list (map (\<lambda>x. (x - loss_ema e)\<^sup>2) (loss_func_per_example obj e)))
                 / ((if global_batch_step e > py_int (2 / (1 - beta))
                     then sum_list (map (\<lambda>x. if x < loss_cutoff n_sds e then 1 else 0)
                                      (map uminus (ll obj e)))
                     else real (length (ll obj e))) + epsilon self))"
      by auto
    then show ?thesis
      using w a(6)
      by (simp add: pe sum_indicator sum_sq_masked retained_def dropped_def del: map_map)
  qed
  have 3: "map_of d ''n_dropped''
      = Some (Some (real (length (dropped n_sds e (map uminus (ll obj e))))))"
  proof -
    from a(1) o(1) have "nd e = real (length (ll obj e))
                      - sum_list (map (\<lambda>x. if x < loss_cutoff n_sds e then 1 else 0)
                           (map uminus (ll obj e)))"
      by auto
    then show ?thesis
      using a(4) count_dropped[of "map uminus (ll obj e)" "\<lambda>x. x < loss_cutoff n_sds e"]
      by (simp add: sum_indicator dropped_def del: map_map)
  qed
  from pe 1 2 3 show ?thesis by (simp add: Let_def)
qed

text \<open>
  Claim C2, as amended. With the filter configured and the step counter beyond the
  warm-up \<open>int(2/(1 - decay))\<close>, a train step folds into the two running statistics
  values computed from the filtered loss: an example whose loss is not below
  \<open>loss_ema + n_sds * loss_sd_ema\<close> is replaced by 0 before the sums are taken, so it adds
  nothing to the mean and the square of \<open>loss_ema\<close> to the deviation, and both sums are
  divided by the number of retained examples plus \<open>epsilon\<close>. The step reports the number
  of dropped examples under the name \<open>n_dropped\<close>.
\<close>

theorem ema_updated_from_filtered_loss:
  assumes "initialize_objective lib self = Inr obj"
    and "filter_config self = Some (n_sds, beta)"
    and "global_batch_step e > py_int (2 / (1 - beta))"
    and "run_train_step ops self obj e = Inr (d, e')"
  shows "(let lf = map uminus (ll obj e);
          kept = retained n_sds e lf;
          gone = dropped n_sds e lf
      in loss_func_per_example obj e
           = map (\<lambda>x. if x < loss_cutoff n_sds e then x else 0) lf
       \<and> loss_ema e'
           = beta * loss_ema e
             + (1 - beta) * (sum_list kept / (real (length kept) + epsilon self))
       \<and> loss_sd_ema e'
           = beta * loss_sd_ema e
             + (1 - beta)
               * (sqrt (sum_list (map (\<lambda>x. (x - loss_ema e)\<^sup>2) kept)
                        + real (length gone) * (loss_ema e)\<^sup>2)
                  / (real (length kept) + epsilon self))
       \<and> map_of d ''n_dropped'' = Some (Some (real (length gone))))"
  using train_step_filtered[OF assms] .


lemma ln_2pi_bounds: "0 < ln (2 * pi)" "ln (2 * pi) < 8"
proof -
  have "1 < 2 * pi" using pi_ge_two by simp
  then show "0 < ln (2 * pi)" by simp
  have "ln (2 * pi) \<le> 2 * pi - 1" using ln_le_minus_one[of "2 * pi"] pi_gt_zero by simp
  also have "\<dots> < 8" using pi_less_4 by simp
  finally show "ln (2 * pi) < 8" .
qed

lemma demo_filtering_config:
  "filter_config demo_filtering = Some (2, 1/2)"
  "py_int (2 / (1 - 1/2)) < global_batch_step demo_step_env"
  by (simp_all add: filter_config_def demo_filtering_def demo_self_def demo_step_env_def
      demo_env_def py_int_def)

lemma demo_filtering_objective:
  "\<exists>obj. initialize_objective demo_lib demo_filtering = Inr obj
     \<and> ll obj demo_step_env = [- (ln (2 * pi) / 2), - 50 - ln (2 * pi) / 2]"
  by (simp add: initialize_objective_def initialize_output_model_def initialize_y_sd_def
      filter_config_def demo_filtering_def demo_self_def demo_step_env_def demo_env_def Let_def
      normal_log_prob_def Normal_def bcast2_def tf_constant_def scalar_def)


lemma demo_filtering_step:
  assumes r: "initialize_objective demo_lib demo_filtering = Inr obj"
  shows "\<exists>d e'. run_train_step demo_ops demo_filtering obj demo_step_env = Inr (d, e')"
  using objective_filter[OF r demo_filtering_config(1)]
  by (simp add: run_train_step_def truthy_def demo_filtering_def demo_self_def Let_def)

theorem ema_updated_from_filtered_loss_witness:
  "filter_config demo_filtering = Some (2, 1/2)
   \<and> py_int (2 / (1 - 1/2)) < global_batch_step demo_step_env
   \<and> (case initialize_objective demo_lib demo_filtering of
         Inl ex \<Rightarrow> False
       | Inr obj \<Rightarrow>
           (case run_train_step demo_ops demo_filtering obj demo_step_env of
              Inl ex \<Rightarrow> False
            | Inr (d, e') \<Rightarrow>
               (let lf = map uminus (ll obj demo_step_env);
                    kept = retained 2 demo_step_env lf;
                    gone = dropped 2 demo_step_env lf
                in loss_func_per_example obj demo_step_env
                     = map (\<lambda>x. if x < loss_cutoff 2 demo_step_env then x else 0) lf
                 \<and> loss_ema e'
                     = (1/2) * loss_ema demo_step_env
                       + (1 - 1/2)
                         * (sum_list kept / (real (length kept) + epsilon demo_filtering))
                 \<and> loss_sd_ema e'
                     = (1/2) * loss_sd_ema demo_step_env
                       + (1 - 1/2)
                         * (sqrt (sum_list (map (\<lambda>x. (x - loss_ema demo_step_env)\<^sup>2) kept)
                                  + real (length gone) * (loss_ema demo_step_env)\<^sup>2)
                            / (real (length kept) + epsilon demo_filtering))
                 \<and> map_of d ''n_dropped'' = Some (Some (real (length gone))))))"
proof -
  from demo_filtering_objective obtain obj where
    r: "initialize_objective demo_lib demo_filtering = Inr obj" by blast
  from demo_filtering_step[OF r] obtain d e' where
    t: "run_train_step demo_ops demo_filtering obj demo_step_env = Inr (d, e')" by blast
  from ema_updated_from_filtered_loss[OF r demo_filtering_config t]
  show ?thesis
    using demo_filtering_config r t by simp
qed

text \<open>
  Claim C2 as stated fails: on a batch of two examples of which the filter drops one,
  the step reports one dropped example, and the new \<open>loss_ema\<close> is not the update
  computed from the mean loss over both examples.
\<close>

theorem ema_not_from_unfiltered_loss:
  "filter_config demo_filtering = Some (2, 1/2)
   \<and> py_int (2 / (1 - 1/2)) < global_batch_step demo_step_env
   \<and> (case initialize_objective demo_lib demo_filtering of
         Inl ex \<Rightarrow> False
       | Inr obj \<Rightarrow>
           (case run_train_step demo_ops demo_filtering obj demo_step_env of
              Inl ex \<Rightarrow> False
            | Inr (d, e') \<Rightarrow>
                map_of d ''n_dropped'' = Some (Some 1)
              \<and> loss_ema e'
                  \<noteq> (1/2) * loss_ema demo_step_env
                    + (1 - 1/2)
                      * (sum_list (map uminus (ll obj demo_step_env))
                         / (real (length (ll obj demo_step_env)) + epsilon demo_filtering))))"
proof -
  from demo_filtering_objective obtain obj where
    r: "initialize_objective demo_lib demo_filtering = Inr obj" and
    l: "ll obj demo_step_env = [- (ln (2 * pi) / 2), - 50 - ln (2 * pi) / 2]" by blast
  from demo_filtering_step[OF r] obtain d e' where
    t: "run_train_step demo_ops demo_filtering obj demo_step_env = Inr (d, e')" by blast
  define c where "c = ln (2 * pi) / 2"
  have cb: "0 < c" "c < 4" using ln_2pi_bounds by (simp_all add: c_def)
  have lf: "map uminus (ll obj demo_step_env) = [c, 50 + c]" by (simp add: l c_def)
  have cut: "loss_cutoff 2 demo_step_env = 10"
    by (simp add: loss_cutoff_def demo_step_env_def demo_env_def)
  have kept: "retained 2 demo_step_env [c, 50 + c] = [c]"
    and gone: "dropped 2 demo_step_env [c, 50 + c] = [50 + c]"
    using cb by (simp_all add: retained_def dropped_def cut)
  have le: "loss_ema demo_step_env = 10" by (simp add: demo_step_env_def demo_env_def)
  have eps: "epsilon demo_filtering = 1/100000000"
    by (simp add: demo_filtering_def demo_self_def)
  from train_step_filtered[OF r demo_filtering_config t]
  have n: "map_of d ''n_dropped'' = Some (Some 1)"
    and m: "loss_ema e' = (1/2) * 10 + (1 - 1/2) * (c / (1 + 1/100000000))"
    by (simp_all add: Let_def lf kept gone le eps)
  have "c / (1 + 1/100000000) < 4" using cb by (simp add: field_simps)
  moreover have "4 < (c + (50 + c)) / (2 + 1/100000000)" using cb by (simp add: field_simps)
  ultimately have ne: "loss_ema e' \<noteq> (1/2) * 10 + (1 - 1/2) * ((c + (50 + c)) / (2 + 1/100000000))"
    using m by simp
  have u: "sum_list (map uminus (ll obj demo_step_env)) = c + (50 + c)"
    "real (length (ll obj demo_step_env)) = 2"
    by (simp_all add: l c_def)
  from n ne show ?thesis
    using demo_filtering_config r t by (simp add: u le eps)
qed


subsection \<open>The likelihood term\<close>

text \<open>
  The per-example loss that is reduced to the likelihood term: the negated
  log-likelihood, in which the filter, when it is configured and the warm-up has elapsed,
  has replaced every example not below the threshold by 0.
\<close>

lemma objective_per_example:
  assumes r: "initialize_objective lib self = Inr obj"
  shows "loss_func_per_example obj e
     = (case filter_config self of
          None \<Rightarrow> map uminus (log_prob lib (out_dist (obj_om obj)) (feed_y e) e)
        | Some (n_sds, beta) \<Rightarrow>
            if py_int (2 / (1 - beta)) < global_batch_step e
            then map (\<lambda>x. if x < loss_cutoff n_sds e then x else 0)
                   (map uminus (log_prob lib (out_dist (obj_om obj)) (feed_y e) e))
            else map uminus (log_prob lib (out_dist (obj_om obj)) (feed_y e) e))"
proof (cases "filter_config self")
  case None
  then show ?thesis
    by (simp add: objective_unfiltered[OF r] objective_ll[OF r])
next
  case (Some p)
  obtain n_sds beta where p: "p = (n_sds, beta)" by (cases p)
  have f: "filter_config self = Some (n_sds, beta)" using Some p by simp
  have "loss_func_per_example obj e
      = (if py_int (2 / (1 - beta)) < global_batch_step e
         then map2 (*) (map uminus (ll obj e))
                (map (\<lambda>x. if x < loss_cutoff n_sds e then 1 else 0) (map uminus (ll obj e)))
         else map uminus (ll obj e))"
    by (subst objective_filter(2)[OF r f]) simp
  then show ?thesis
    by (simp add: f map2_indicator objective_ll[OF r] del: map_map)
qed

text \<open>
  Claim C7, as amended. When the objective is assembled with no regularizable layers, no
  regularizer loss registered before, and an empty list of KL penalties at the time the
  list is read, then \<open>reg_loss\<close> is 0, \<open>kl_loss\<close> is 0, and the total loss is exactly the
  likelihood term: the mean of the per-example loss, or its sum times \<open>minibatch_scale\<close>
  when \<open>scale_loss_with_data\<close> is set. The per-example loss is the negated log-likelihood
  of the output distribution at the observed responses when the loss filter is not
  configured or the step counter has not passed the warm-up; past the warm-up it is the
  negated log-likelihood with every example not below \<open>loss_ema + n_sds * loss_sd_ema\<close>
  replaced by 0.
\<close>

theorem objective_without_penalties:
  assumes "initialize_objective lib self = Inr obj"
    and "regularizable_layers self = []"
    and "regularizer_losses_varnames self = []"
    and "kl_penalties (final_self obj) = []"
  shows "(let nll = map uminus (log_prob lib (out_dist (obj_om obj)) (feed_y e) e);
              lf = (case filter_config self of
                      None \<Rightarrow> nll
                    | Some (n_sds, beta) \<Rightarrow>
                        if py_int (2 / (1 - beta)) < global_batch_step e
                        then map (\<lambda>x. if x < loss_cutoff n_sds e then x else 0) nll
                        else nll)
          in reg_loss obj e = 0 \<and> kl_loss obj e = 0
           \<and> loss_func obj e =
                (if scale_loss_with_data self
                 then sum_list lf * minibatch_scale self e
                 else sum_list lf / real (length lf)))"
proof -
  from objective_output_model[OF assms(1)] obtain self1 where k: "same_but_kl self self1"
    and fs: "final_self obj = regularize_layers self1 (regularizable_layers self)" by blast
  have vn: "regularizer_losses_varnames (final_self obj) = []"
    by (simp add: fs same_but_kl_fields[OF k] assms(2,3))
  have 1: "reg_loss obj e = 0"
    by (simp add: objective_reg_loss[OF assms(1)] vn assms(4))
  have 2: "kl_loss obj e = 0"
    by (simp add: objective_kl_loss[OF assms(1)] assms(4))
  have 3: "loss_func obj e =
         (if scale_loss_with_data self
          then sum_list (loss_func_per_example obj e) * minibatch_scale self e
          else sum_list (loss_func_per_example obj e) / real (length (loss_func_per_example obj e)))"
    by (simp add: objective_loss_func[OF assms(1)] vn assms(4))
  from 1 2 3 show ?thesis
    unfolding objective_per_example[OF assms(1)] by (simp add: Let_def)
qed


lemma demo_final_self:
  assumes "initialize_objective demo_lib m = Inr obj"
    and "m = demo_self \<or> m = demo_filtering \<or> m = demo_preregistered"
  shows "final_self obj = m"
proof -
  have om: "\<exists>x. initialize_output_model demo_lib m = Inr (x, m)"
    using assms(2)
    by (auto simp: initialize_output_model_def initialize_y_sd_def demo_filtering_def
        demo_preregistered_def demo_self_def Let_def)
  have rl: "regularizable_layers m = []"
    using assms(2) by (auto simp: demo_filtering_def demo_preregistered_def demo_self_def)
  from objective_output_model[OF assms(1)] om show ?thesis
    by (auto simp: rl)
qed

theorem objective_without_penalties_witness:
  "regularizable_layers demo_self = [] \<and> regularizer_losses_varnames demo_self = []
   \<and> (case initialize_objective demo_lib demo_self of
         Inl ex \<Rightarrow> False
       | Inr obj \<Rightarrow>
           kl_penalties (final_self obj) = []
         \<and> (let nll = map uminus (log_prob demo_lib (out_dist (obj_om obj)) (feed_y demo_env) demo_env);
                  lf = (case filter_config demo_self of
                          None \<Rightarrow> nll
                        | Some (n_sds, beta) \<Rightarrow>
                            if py_int (2 / (1 - beta)) < global_batch_step demo_env
                            then map (\<lambda>x. if x < loss_cutoff n_sds demo_env then x else 0) nll
                            else nll)
              in reg_loss obj demo_env = 0 \<and> kl_loss obj demo_env = 0
               \<and> loss_func obj demo_env =
                    (if scale_loss_with_data demo_self
                     then sum_list lf * minibatch_scale demo_self demo_env
                     else sum_list lf / real (length lf))))
   \<and> regularizable_layers demo_filtering = []
   \<and> regularizer_losses_varnames demo_filtering = []
   \<and> (case initialize_objective demo_lib demo_filtering of
         Inl ex \<Rightarrow> False
       | Inr obj \<Rightarrow>
           kl_penalties (final_self obj) = []
         \<and> (let nll = map uminus (log_prob demo_lib (out_dist (obj_om obj)) (feed_y demo_step_env) demo_step_env);
                  lf = (case filter_config demo_filtering of
                          None \<Rightarrow> nll
                        | Some (n_sds, beta) \<Rightarrow>
                            if py_int (2 / (1 - beta)) < global_batch_step demo_step_env
                            then map (\<lambda>x. if x < loss_cutoff n_sds demo_step_env then x else 0) nll
                            else nll)
              in reg_loss obj demo_step_env = 0 \<and> kl_loss obj demo_step_env = 0
               \<and> loss_func obj demo_step_env =
                    (if scale_loss_with_data demo_filtering
                     then sum_list lf * minibatch_scale demo_filtering demo_step_env
                     else sum_list lf / real (length lf))))"
proof -
  have a: "regularizable_layers demo_self = []" "regularizer_losses_varnames demo_self = []"
    by (simp_all add: demo_self_def)
  have b: "regularizable_layers demo_filtering = []"
    "regularizer_losses_varnames demo_filtering = []"
    by (simp_all add: demo_filtering_def demo_self_def)
  obtain obj where r: "initialize_objective demo_lib demo_self = Inr obj"
    by (simp add: initialize_objective_def initialize_output_model_def initialize_y_sd_def
        filter_config_def demo_self_def Let_def)
  from demo_filtering_objective obtain obj' where
    r': "initialize_objective demo_lib demo_filtering = Inr obj'" by blast
  have k: "kl_penalties (final_self obj) = []"
    by (simp add: demo_final_self[OF r] demo_self_def)
  have k': "kl_penalties (final_self obj') = []"
    by (simp add: demo_final_self[OF r'] demo_filtering_def demo_self_def)
  from objective_without_penalties[OF r a k, of demo_env]
    objective_without_penalties[OF r' b k', of demo_step_env]
  show ?thesis
    using a b r r' k k' by simp
qed

text \<open>
  Claim C7 as stated fails in two ways, each with no regularizable layers and an empty
  list of KL penalties. With the loss filter configured and the warm-up elapsed, on a
  batch of two examples of which the filter drops one, \<open>reg_loss\<close> and \<open>kl_loss\<close> are 0
  but the total loss is not the mean negated log-likelihood. With one regularizer loss
  registered by the base class before the objective is assembled, \<open>reg_loss\<close> is 5.
\<close>

theorem penalty_free_loss_is_not_always_nll:
  "regularizable_layers demo_filtering = []
   \<and> (case initialize_objective demo_lib demo_filtering of
         Inl ex \<Rightarrow> False
       | Inr obj \<Rightarrow>
           kl_penalties (final_self obj) = []
         \<and> reg_loss obj demo_step_env = 0 \<and> kl_loss obj demo_step_env = 0
         \<and> \<not> scale_loss_with_data demo_filtering
         \<and> loss_func obj demo_step_env
             \<noteq> reduce_mean (map uminus (ll obj demo_step_env)))
   \<and> regularizable_layers demo_preregistered = []
   \<and> (case initialize_objective demo_lib demo_preregistered of
         Inl ex \<Rightarrow> False
       | Inr obj \<Rightarrow>
           kl_penalties (final_self obj) = [] \<and> reg_loss obj demo_env = 5)"
proof -
  from demo_filtering_objective obtain obj where
    r: "initialize_objective demo_lib demo_filtering = Inr obj" and
    l: "ll obj demo_step_env = [- (ln (2 * pi) / 2), - 50 - ln (2 * pi) / 2]" by blast
  have fs: "final_self obj = demo_filtering" by (simp add: demo_final_self[OF r])
  have k: "kl_penalties (final_self obj) = []"
    and v: "regularizer_losses_varnames (final_self obj) = []"
    and rl: "regularizable_layers demo_filtering = []"
    and sc: "\<not> scale_loss_with_data demo_filtering"
    by (simp_all add: fs demo_filtering_def demo_self_def)
  define c where "c = ln (2 * pi) / 2"
  have cb: "0 < c" "c < 4" using ln_2pi_bounds by (simp_all add: c_def)
  have nll: "map uminus (log_prob demo_lib (out_dist (obj_om obj)) (feed_y demo_step_env)
               demo_step_env) = [c, 50 + c]"
    using l by (simp add: objective_ll[OF r] c_def)
  have cut: "loss_cutoff 2 demo_step_env = 10"
    by (simp add: loss_cutoff_def demo_step_env_def demo_env_def)
  have pe: "loss_func_per_example obj demo_step_env = [c, 0]"
    using cb demo_filtering_config(2)
    by (simp add: objective_per_example[OF r] demo_filtering_config(1) nll cut)
  have 1: "reg_loss obj demo_step_env = 0"
    by (simp add: objective_reg_loss[OF r] v k)
  have 2: "kl_loss obj demo_step_env = 0"
    by (simp add: objective_kl_loss[OF r] k)
  have 3: "loss_func obj demo_step_env = c / 2"
    by (simp add: objective_loss_func[OF r] v k sc pe)
  have 4: "reduce_mean (map uminus (ll obj demo_step_env)) = (c + (50 + c)) / 2"
    by (simp add: reduce_mean_def l c_def)
  have 5: "loss_func obj demo_step_env \<noteq> reduce_mean (map uminus (ll obj demo_step_env))"
    using cb unfolding 3 4 by simp
  obtain obj' where r': "initialize_objective demo_lib demo_preregistered = Inr obj'"
    by (simp add: initialize_objective_def initialize_output_model_def initialize_y_sd_def
        filter_config_def demo_preregistered_def demo_self_def Let_def)
  have fs': "final_self obj' = demo_preregistered" by (simp add: demo_final_self[OF r'])
  have k': "kl_penalties (final_self obj') = []"
    and rl': "regularizable_layers demo_preregistered = []"
    by (simp_all add: fs' demo_preregistered_def demo_self_def)
  have 6: "reg_loss obj' demo_env = 5"
    by (simp add: objective_reg_loss[OF r'] fs' demo_preregistered_def demo_self_def
        tf_constant_def)
  from rl r k 1 2 sc 5 rl' r' k' 6 show ?thesis by simp
qed

end
